theory Spec2Isabelle
  imports Main
begin

section \<open>JavaScript values\<close>

text \<open>
  The scraper (\<^verbatim>\<open>services/scraper.js\<close>) passes plain JavaScript objects between its
  stages: the product record, the answers parsed from the AI service, the delivery record.
  They are modelled as values of \<open>jsval\<close>. An object is an association list in insertion
  order. A number is finite (an integer here: the pipeline does no arithmetic on these
  values), negative zero, or one of the infinities that \<^verbatim>\<open>JSON.parse\<close> returns for a
  literal beyond the double range.
\<close>

datatype jsnum =
    Finite int
  | NegZero
  | PosInfinity
  | NegInfinity

datatype jsval =
    JUndef
  | JNull
  | JBool bool
  | JNum jsnum
  | JStr string
  | JArr "jsval list"
  | JObj "(string \<times> jsval) list"

type_synonym obj = "(string \<times> jsval) list"

text \<open>Exceptions: the scraper's own \<^verbatim>\<open>ScraperError(message, statusCode)\<close> and any other
  \<^verbatim>\<open>Error\<close> (a \<^verbatim>\<open>TypeError\<close> of the runtime, a rejected renderer or service call).\<close>

datatype error =
    ScraperError string nat
  | Error string

text \<open>Truthiness, as tested by \<^verbatim>\<open>!x\<close>, \<^verbatim>\<open>x || y\<close>, \<^verbatim>\<open>x && y\<close> and \<^verbatim>\<open>if (x)\<close>.\<close>

fun truthy :: "jsval \<Rightarrow> bool" where
  "truthy JUndef = False"
| "truthy JNull = False"
| "truthy (JBool b) = b"
| "truthy (JNum n) = (n \<noteq> Finite 0 \<and> n \<noteq> NegZero)"
| "truthy (JStr s) = (s \<noteq> [])"
| "truthy (JArr xs) = True"
| "truthy (JObj kvs) = True"

text \<open>\<^verbatim>\<open>a || b\<close> and \<^verbatim>\<open>a ?? b\<close>.\<close>

definition js_or :: "jsval \<Rightarrow> jsval \<Rightarrow> jsval" where
  "js_or a b = (if truthy a then a else b)"

fun nullish :: "jsval \<Rightarrow> jsval \<Rightarrow> jsval" where
  "nullish JUndef b = b"
| "nullish JNull b = b"
| "nullish a b = a"

text \<open>\<^verbatim>\<open>o.k\<close> for an object \<open>o\<close>: the value of the key, \<^verbatim>\<open>undefined\<close> when absent.\<close>

definition get_prop :: "obj \<Rightarrow> string \<Rightarrow> jsval" where
  "get_prop kvs k = (case map_of kvs k of None \<Rightarrow> JUndef | Some v \<Rightarrow> v)"

text \<open>\<^verbatim>\<open>v?.k\<close> for any value: \<^verbatim>\<open>undefined\<close> on \<^verbatim>\<open>null\<close> and \<^verbatim>\<open>undefined\<close>; arrays and
  strings have a \<^verbatim>\<open>length\<close>; the keys the scraper reads are otherwise own properties only.\<close>

fun opt_member :: "jsval \<Rightarrow> string \<Rightarrow> jsval" where
  "opt_member (JObj kvs) k = get_prop kvs k"
| "opt_member (JArr xs) k = (if k = ''length'' then JNum (Finite (int (length xs))) else JUndef)"
| "opt_member (JStr s) k = (if k = ''length'' then JNum (Finite (int (length s))) else JUndef)"
| "opt_member v k = JUndef"

text \<open>\<^verbatim>\<open>v.k\<close>: a \<^verbatim>\<open>TypeError\<close> on \<^verbatim>\<open>null\<close> and \<^verbatim>\<open>undefined\<close>.\<close>

fun member :: "jsval \<Rightarrow> string \<Rightarrow> error + jsval" where
  "member JUndef k = Inl (Error ''TypeError: cannot read properties of undefined'')"
| "member JNull k = Inl (Error ''TypeError: cannot read properties of null'')"
| "member v k = Inr (opt_member v k)"

fun isArray :: "jsval \<Rightarrow> bool" where
  "isArray (JArr xs) = True"
| "isArray v = False"

text \<open>\<^verbatim>\<open>o.k = v\<close> and the effect of a later entry of an object literal: an existing key
  keeps its place and takes the new value, a new key goes last.\<close>

fun set_prop :: "obj \<Rightarrow> string \<Rightarrow> jsval \<Rightarrow> obj" where
  "set_prop [] k v = [(k, v)]"
| "set_prop ((k', v') # kvs) k v =
     (if k' = k then (k, v) # kvs else (k', v') # set_prop kvs k v)"

text \<open>Decimal index keys of arrays and strings.\<close>

definition digit_char :: "nat \<Rightarrow> char" where
  "digit_char d = char_of (48 + d)"

fun show_nat :: "nat \<Rightarrow> string" where
  "show_nat n = (if n < 10 then [digit_char n] else show_nat (n div 10) @ [digit_char (n mod 10)])"

declare show_nat.simps [simp del]

fun index_entries :: "nat \<Rightarrow> jsval list \<Rightarrow> obj" where
  "index_entries i [] = []"
| "index_entries i (v # vs) = (show_nat i, v) # index_entries (Suc i) vs"

text \<open>The own enumerable properties copied by \<^verbatim>\<open>{...v}\<close>: the entries of an object, the
  indexed elements of an array or string, nothing for any other value.\<close>

fun own_props :: "jsval \<Rightarrow> obj" where
  "own_props (JObj kvs) = kvs"
| "own_props (JArr xs) = index_entries 0 xs"
| "own_props (JStr s) = index_entries 0 (map (\<lambda>c. JStr [c]) s)"
| "own_props v = []"

text \<open>\<^verbatim>\<open>{...target, ...v}\<close>: every own property of \<open>v\<close> is assigned in turn.\<close>

definition spread_into :: "obj \<Rightarrow> jsval \<Rightarrow> obj" where
  "spread_into target v = foldl (\<lambda>acc (k, x). set_prop acc k x) target (own_props v)"

text \<open>\<^verbatim>\<open>[...v]\<close>: the elements of an array, the characters of a string; any other value is
  not iterable and raises a \<^verbatim>\<open>TypeError\<close>.\<close>

fun iterate :: "jsval \<Rightarrow> error + jsval list" where
  "iterate (JArr xs) = Inr xs"
| "iterate (JStr s) = Inr (map (\<lambda>c. JStr [c]) s)"
| "iterate v = Inl (Error ''TypeError: value is not iterable'')"

text \<open>Strict equality \<^verbatim>\<open>===\<close>: primitives are compared by value, zero and negative zero
  being equal; arrays and objects are compared by reference, and every array or object
  met here is a reference of its own (freshly parsed or freshly serialised), so it is
  equal to no other element.\<close>

fun is_zero :: "jsnum \<Rightarrow> bool" where
  "is_zero (Finite n) = (n = 0)"
| "is_zero NegZero = True"
| "is_zero n = False"

definition num_equal :: "jsnum \<Rightarrow> jsnum \<Rightarrow> bool" where
  "num_equal a b = (if is_zero a then is_zero b else a = b)"

fun strict_equal :: "jsval \<Rightarrow> jsval \<Rightarrow> bool" where
  "strict_equal (JNum a) (JNum b) = num_equal a b"
| "strict_equal (JArr xs) b = False"
| "strict_equal (JObj kvs) b = False"
| "strict_equal a b = (a = b)"

text \<open>\<^verbatim>\<open>a.filter((v, i, a) => a.indexOf(v) === i)\<close>, walking the array with the elements
  already passed: an element is kept when no earlier element is strictly equal to it.\<close>

fun first_occurrences :: "jsval list \<Rightarrow> jsval list \<Rightarrow> jsval list" where
  "first_occurrences seen [] = []"
| "first_occurrences seen (v # vs) =
     (if list_ex (\<lambda>s. strict_equal s v) seen then first_occurrences (seen @ [v]) vs
      else v # first_occurrences (seen @ [v]) vs)"

definition dedupe :: "jsval list \<Rightarrow> jsval list" where
  "dedupe a = first_occurrences [] a"

section \<open>Strings\<close>

fun startsWith :: "string \<Rightarrow> string \<Rightarrow> bool" where
  "startsWith s [] = True"
| "startsWith [] (p # ps) = False"
| "startsWith (c # cs) (p # ps) = (c = p \<and> startsWith cs ps)"

fun str_includes :: "string \<Rightarrow> string \<Rightarrow> bool" where
  "str_includes [] needle = (needle = [])"
| "str_includes (c # cs) needle = (startsWith (c # cs) needle \<or> str_includes cs needle)"

text \<open>\<^verbatim>\<open>toLowerCase\<close> on the ASCII letters.\<close>

definition lower_char :: "char \<Rightarrow> char" where
  "lower_char c =
     (let n = (of_char c :: nat) in if 65 \<le> n \<and> n \<le> 90 then char_of (n + 32) else c)"

definition toLowerCase :: "string \<Rightarrow> string" where
  "toLowerCase s = map lower_char s"

section \<open>Normalisation and validation\<close>

text \<open>
  \<^verbatim>\<open>handleMissingData(productData)\<close> builds a fresh object literal with every field of the
  product record. \<open>now_iso\<close> is what \<^verbatim>\<open>new Date().toISOString()\<close> returns.
\<close>

definition array_or_empty :: "jsval \<Rightarrow> jsval" where
  "array_or_empty v = (if isArray v then v else JArr [])"

definition handleMissingData :: "string \<Rightarrow> obj \<Rightarrow> obj" where
  "handleMissingData now_iso productData =
     [ (''title'', js_or (get_prop productData ''title'') (JStr ''Unknown Product'')),
       (''price'', js_or (get_prop productData ''price'') JNull),
       (''originalPrice'', js_or (get_prop productData ''originalPrice'') JNull),
       (''description'', js_or (get_prop productData ''description'') (JStr ''No description available'')),
       (''features'', array_or_empty (get_prop productData ''features'')),
       (''variants'', JObj
          [ (''sizes'', array_or_empty (opt_member (get_prop productData ''variants'') ''sizes'')),
            (''colors'', array_or_empty (opt_member (get_prop productData ''variants'') ''colors'')),
            (''other'', array_or_empty (opt_member (get_prop productData ''variants'') ''other'')) ]),
       (''images'', array_or_empty (get_prop productData ''images'')),
       (''delivery'', JObj
          [ (''available'', nullish (opt_member (get_prop productData ''delivery'') ''available'') JNull),
            (''estimatedDate'', js_or (opt_member (get_prop productData ''delivery'') ''estimatedDate'') JNull),
            (''charges'', js_or (opt_member (get_prop productData ''delivery'') ''charges'') JNull),
            (''pincode'', js_or (opt_member (get_prop productData ''delivery'') ''pincode'') (JStr ''201001'')) ]),
       (''weight'', js_or (get_prop productData ''weight'') JNull),
       (''category'', js_or (get_prop productData ''category'') (JStr ''Uncategorized'')),
       (''source'', js_or (get_prop productData ''source'') JNull),
       (''scrapedAt'', js_or (get_prop productData ''scrapedAt'') (JStr now_iso)),
       (''originalUrl'', js_or (get_prop productData ''originalUrl'') JNull) ]"

text \<open>\<^verbatim>\<open>validateScrapedData(data)\<close>: throws when the title is falsy.\<close>

definition validateScrapedData :: "obj \<Rightarrow> error + unit" where
  "validateScrapedData data =
     (if \<not> truthy (get_prop data ''title'')
      then Inl (ScraperError ''Product data incomplete. Missing title.'' 422)
      else Inr ())"

section \<open>Platform detection\<close>

text \<open>\<^verbatim>\<open>detectPlatform(url)\<close>: substring tests in the source's order, a \<^verbatim>\<open>ScraperError\<close> with
  status 400 when none matches.\<close>

definition detectPlatform :: "string \<Rightarrow> error + string" where
  "detectPlatform url =
     (if str_includes url ''amazon.in'' \<or> str_includes url ''amzn.in'' then Inr ''amazon''
      else if str_includes url ''flipkart.com'' then Inr ''flipkart''
      else if str_includes url ''myntra.com'' then Inr ''myntra''
      else if str_includes url ''snapdeal.com'' then Inr ''snapdeal''
      else Inl (ScraperError ''Unsupported platform'' 400))"

section \<open>What the outside world answers\<close>

text \<open>
  The renderer (Puppeteer), the AI service (Gemini), the clock and the file system are
  outside the program. Each call of the pipeline is run against a record of what they
  answer; the pipeline reports what it asked of them as a list of events.
\<close>

datatype ai_use = Vision | FillMissing | Delivery

datatype event =
    LaunchBrowser
  | NewPage
  | Navigate string
  | CloseBrowser
  | ExtractDataWithAI
  | FillMissingDataWithAI
  | GenerateContent ai_use
  | WriteCache string

text \<open>
  The object literal \<^verbatim>\<open>data\<close> of \<^verbatim>\<open>extractBasicDataWithIndex\<close> and of
  \<^verbatim>\<open>fallbackExtraction\<close>, and what the in-page code computes for it: text fields are a
  string or \<^verbatim>\<open>null\<close>, \<^verbatim>\<open>features\<close> and \<^verbatim>\<open>images\<close> are arrays of strings,
  \<^verbatim>\<open>variants\<close> and \<^verbatim>\<open>delivery\<close> keep their initial value (neither function assigns them).
\<close>

record index_result =
  ix_title :: "string option"
  ix_price :: "string option"
  ix_originalPrice :: "string option"
  ix_description :: "string option"
  ix_features :: "string list"
  ix_images :: "string list"
  ix_weight :: "string option"
  ix_category :: "string option"

fun text_or_null :: "string option \<Rightarrow> jsval" where
  "text_or_null None = JNull"
| "text_or_null (Some s) = JStr s"

definition data_object :: "index_result \<Rightarrow> obj" where
  "data_object r =
     [ (''title'', text_or_null (ix_title r)),
       (''price'', text_or_null (ix_price r)),
       (''originalPrice'', text_or_null (ix_originalPrice r)),
       (''description'', text_or_null (ix_description r)),
       (''features'', JArr (map JStr (ix_features r))),
       (''images'', JArr (map JStr (ix_images r))),
       (''variants'', JObj [(''sizes'', JArr []), (''colors'', JArr []), (''other'', JArr [])]),
       (''delivery'', JObj [(''available'', JNull), (''estimatedDate'', JNull), (''charges'', JNull)]),
       (''weight'', text_or_null (ix_weight r)),
       (''category'', text_or_null (ix_category r)) ]"

text \<open>
  \<^verbatim>\<open>extractBasicDataWithIndex(page, pageIndex)\<close> initialises \<^verbatim>\<open>data\<close> with every text
  field \<^verbatim>\<open>null\<close> and every array empty, passes it to \<^verbatim>\<open>page.evaluate\<close> as an argument,
  and returns \<^verbatim>\<open>data\<close>. The renderer hands the in-page function a serialised copy; the
  function fills and returns that copy, but the value \<^verbatim>\<open>page.evaluate\<close> resolves to is
  not used, and a rejection is caught. \<open>evaluated\<close> is that value (\<open>None\<close> for a rejection):
  whatever it is, the object returned is the one initialised.
\<close>

definition initial_data :: index_result where
  "initial_data =
     \<lparr> ix_title = None, ix_price = None, ix_originalPrice = None, ix_description = None,
       ix_features = [], ix_images = [], ix_weight = None, ix_category = None \<rparr>"

definition extractBasicDataWithIndex :: "index_result option \<Rightarrow> index_result" where
  "extractBasicDataWithIndex evaluated = initial_data"

text \<open>\<^verbatim>\<open>fallbackExtraction(page, platform)\<close> assigns what each \<^verbatim>\<open>page.evaluate\<close> resolves
  to, so its literal does carry what the heuristics find; it returns the same literal with
  \<^verbatim>\<open>source: platform\<close> as its last entry; it catches every error and returns what it has.\<close>

definition fallbackExtraction :: "index_result \<Rightarrow> string \<Rightarrow> obj" where
  "fallbackExtraction r platform = data_object r @ [(''source'', JStr platform)]"

text \<open>
  One invocation of \<^verbatim>\<open>extractDataWithAI\<close>: whether \<^verbatim>\<open>page.content()\<close> and
  \<^verbatim>\<open>page.screenshot()\<close> resolve; the JSON value parsed from the answer to the screenshot
  prompt (by the first or the more aggressive second cleaning), \<open>None\<close> when the request
  fails or no parse succeeds; the same for the text-only prompt; and what the fallback
  heuristics find.
\<close>

record vision_env =
  vis_capture_ok :: bool
  vis_image_answer :: "jsval option"
  vis_text_answer :: "jsval option"
  vis_fallback :: index_result

text \<open>\<^verbatim>\<open>{ ...parsedData, source: platform }\<close>\<close>

definition with_source :: "jsval \<Rightarrow> string \<Rightarrow> obj" where
  "with_source parsedData platform = set_prop (spread_into [] parsedData) ''source'' (JStr platform)"

definition extractDataWithAI :: "vision_env \<Rightarrow> string \<Rightarrow> event list \<times> obj" where
  "extractDataWithAI env platform =
     (if \<not> vis_capture_ok env
      then ([ExtractDataWithAI], fallbackExtraction (vis_fallback env) platform)
      else case vis_image_answer env of
             Some parsedData \<Rightarrow>
               ([ExtractDataWithAI, GenerateContent Vision], with_source parsedData platform)
           | None \<Rightarrow>
               (case vis_text_answer env of
                  Some parsedData \<Rightarrow>
                    ([ExtractDataWithAI, GenerateContent Vision, GenerateContent Vision],
                     with_source parsedData platform)
                | None \<Rightarrow>
                    ([ExtractDataWithAI, GenerateContent Vision, GenerateContent Vision],
                     fallbackExtraction (vis_fallback env) platform)))"

section \<open>Index extraction, escalation and merge\<close>

definition try_bind :: "error + 'a \<Rightarrow> ('a \<Rightarrow> error + 'b) \<Rightarrow> error + 'b" where
  "try_bind m f = (case m of Inl e \<Rightarrow> Inl e | Inr x \<Rightarrow> f x)"

text \<open>
  The merge of \<^verbatim>\<open>extractDataWithIndexAndAI\<close>:
  \<^verbatim>\<open>{ ...basicData, ...aiData, source: platform, images: [...].filter(...),
     features: [...].filter(...), variants: { ...(basicData.variants || {}), ...(aiData.variants || {}) } }\<close>.
  The entries are evaluated in order; spreading a non-iterable into an array throws.
\<close>

definition merged_array :: "obj \<Rightarrow> obj \<Rightarrow> string \<Rightarrow> error + jsval" where
  "merged_array basicData aiData k =
     try_bind (iterate (js_or (get_prop basicData k) (JArr []))) (\<lambda>xs.
     try_bind (iterate (js_or (get_prop aiData k) (JArr []))) (\<lambda>ys.
     Inr (JArr (dedupe (xs @ ys)))))"

definition merged_variants :: "obj \<Rightarrow> obj \<Rightarrow> jsval" where
  "merged_variants basicData aiData =
     JObj (spread_into (spread_into [] (js_or (get_prop basicData ''variants'') (JObj [])))
                       (js_or (get_prop aiData ''variants'') (JObj [])))"

definition mergeData :: "obj \<Rightarrow> obj \<Rightarrow> string \<Rightarrow> error + obj" where
  "mergeData basicData aiData platform =
     try_bind (merged_array basicData aiData ''images'') (\<lambda>images.
     try_bind (merged_array basicData aiData ''features'') (\<lambda>features.
     Inr (set_prop
           (set_prop
             (set_prop
               (set_prop (spread_into (spread_into [] (JObj basicData)) (JObj aiData))
                  ''source'' (JStr platform))
               ''images'' images)
             ''features'' features)
           ''variants'' (merged_variants basicData aiData))))"

text \<open>\<^verbatim>\<open>basicData.title && basicData.price && basicData.description &&
  basicData.images?.length > 0\<close>\<close>

definition index_complete :: "index_result \<Rightarrow> bool" where
  "index_complete r =
     (truthy (text_or_null (ix_title r)) \<and> truthy (text_or_null (ix_price r))
      \<and> truthy (text_or_null (ix_description r)) \<and> length (ix_images r) > 0)"

record extract_env =
  in_page :: "index_result option"
  vision_first :: vision_env
  vision_retry :: vision_env

text \<open>
  \<^verbatim>\<open>extractDataWithIndexAndAI\<close>. \<^verbatim>\<open>extractBasicDataWithIndex\<close> and \<^verbatim>\<open>extractDataWithAI\<close>
  catch their own errors, so the only throw inside the \<^verbatim>\<open>try\<close> is the merge; the
  \<^verbatim>\<open>catch\<close> then calls \<^verbatim>\<open>extractDataWithAI\<close> a second time and returns its result as it is.
\<close>

definition extractDataWithIndexAndAI :: "extract_env \<Rightarrow> string \<Rightarrow> event list \<times> obj" where
  "extractDataWithIndexAndAI env platform =
     (let basic = extractBasicDataWithIndex (in_page env);
          basicData = data_object basic in
      if index_complete basic
      then ([], set_prop (spread_into [] (JObj basicData)) ''source'' (JStr platform))
      else
        (let (ev1, aiData) = extractDataWithAI (vision_first env) platform in
         case mergeData basicData aiData platform of
           Inr mergedData \<Rightarrow> (ev1, mergedData)
         | Inl e \<Rightarrow>
             (let (ev2, aiData2) = extractDataWithAI (vision_retry env) platform in
              (ev1 @ ev2, aiData2))))"

section \<open>Delivery inquiry\<close>

text \<open>
  \<^verbatim>\<open>checkDeliveryDate\<close> and the per-platform functions it dispatches to catch their own
  errors and always return an object literal with the keys \<^verbatim>\<open>available\<close>,
  \<^verbatim>\<open>estimatedDate\<close>, \<^verbatim>\<open>charges\<close> and \<^verbatim>\<open>pincode: pincode\<close>; the first three are what
  the page shows. \<^verbatim>\<open>findPincodeInput\<close> and \<^verbatim>\<open>extractDeliveryTextWithoutPincode\<close> run
  \<^verbatim>\<open>page.evaluate\<close> unguarded and may reject.
\<close>

record delivery_reading =
  rd_available :: jsval
  rd_estimatedDate :: jsval
  rd_charges :: jsval

record delivery_text =
  dt_found :: bool
  dt_available :: jsval
  dt_estimatedDate :: jsval
  dt_charges :: jsval

text \<open>The AI answer to the delivery prompt: the request fails, the answer holds no JSON
  text, or \<^verbatim>\<open>JSON.parse\<close> of the cleaned text succeeds (\<open>Some\<close>) or throws (\<open>None\<close>).\<close>

datatype delivery_reply =
    DeliveryServiceError
  | DeliveryNoJson
  | DeliveryJson "jsval option"

record delivery_env =
  direct :: delivery_reading
  pincode_scan_ok :: bool
  page_text :: "delivery_text option"
  dlv_screenshot_ok :: bool
  dlv_reply :: delivery_reply

definition delivery_object :: "jsval \<Rightarrow> jsval \<Rightarrow> jsval \<Rightarrow> string \<Rightarrow> obj" where
  "delivery_object a d c pincode =
     [(''available'', a), (''estimatedDate'', d), (''charges'', c), (''pincode'', JStr pincode)]"

definition checkDeliveryDate :: "delivery_env \<Rightarrow> string \<Rightarrow> obj" where
  "checkDeliveryDate env pincode =
     delivery_object (rd_available (direct env)) (rd_estimatedDate (direct env))
       (rd_charges (direct env)) pincode"

text \<open>The last resort of the \<^verbatim>\<open>try\<close> block and the value of the outer \<^verbatim>\<open>catch\<close>.\<close>

definition generic_delivery :: "string \<Rightarrow> obj" where
  "generic_delivery pincode =
     delivery_object (JBool True)
       (JStr ''Standard delivery available, check at checkout for exact timeframe'')
       (JStr ''Check at checkout'') pincode"

definition caught_delivery :: "string \<Rightarrow> obj" where
  "caught_delivery pincode =
     delivery_object (JBool True) (JStr ''Standard delivery, check at checkout for details'')
       (JStr ''Check at checkout'') pincode"

text \<open>The AI step: its own \<^verbatim>\<open>try\<close> swallows a failed screenshot or request, and the
  inner \<^verbatim>\<open>try\<close> swallows a failed parse or a \<^verbatim>\<open>TypeError\<close> on reading the parsed value;
  all of them fall through to the generic record.\<close>

definition delivery_from_ai :: "delivery_env \<Rightarrow> string \<Rightarrow> event list \<times> obj" where
  "delivery_from_ai env pincode =
     (if \<not> dlv_screenshot_ok env then ([], generic_delivery pincode)
      else case dlv_reply env of
             DeliveryJson (Some deliveryInfo) \<Rightarrow>
               (case member deliveryInfo ''available'' of
                  Inl e \<Rightarrow> ([GenerateContent Delivery], generic_delivery pincode)
                | Inr a \<Rightarrow>
                    ([GenerateContent Delivery],
                     delivery_object a (opt_member deliveryInfo ''estimatedDate'')
                       (opt_member deliveryInfo ''charges'') pincode))
           | _ \<Rightarrow> ([GenerateContent Delivery], generic_delivery pincode))"

text \<open>The body of the outer \<^verbatim>\<open>try\<close> of \<^verbatim>\<open>checkDeliveryWithAI\<close>. Typing into a pincode field
  that was found is wrapped in a \<^verbatim>\<open>try\<close> of its own and does not change the result.\<close>

definition checkDelivery_body :: "delivery_env \<Rightarrow> string \<Rightarrow> event list \<times> (error + obj)" where
  "checkDelivery_body env pincode =
     (let directDeliveryInfo = checkDeliveryDate env pincode in
      if truthy (get_prop directDeliveryInfo ''estimatedDate'')
         \<and> get_prop directDeliveryInfo ''estimatedDate'' \<noteq> JStr ''Error checking delivery''
      then ([], Inr directDeliveryInfo)
      else if \<not> pincode_scan_ok env then ([], Inl (Error ''findPincodeInput rejected''))
      else case page_text env of
             None \<Rightarrow> ([], Inl (Error ''extractDeliveryTextWithoutPincode rejected''))
           | Some deliveryTextInfo \<Rightarrow>
               if dt_found deliveryTextInfo
               then ([], Inr (delivery_object (dt_available deliveryTextInfo)
                                (dt_estimatedDate deliveryTextInfo)
                                (dt_charges deliveryTextInfo) pincode))
               else (let (ev, r) = delivery_from_ai env pincode in (ev, Inr r)))"

definition checkDeliveryWithAI :: "delivery_env \<Rightarrow> string \<Rightarrow> event list \<times> (error + obj)" where
  "checkDeliveryWithAI env pincode =
     (case checkDelivery_body env pincode of
        (ev, Inl e) \<Rightarrow> (ev, Inr (caught_delivery pincode))
      | (ev, Inr r) \<Rightarrow> (ev, Inr r))"

section \<open>Filling missing fields\<close>

text \<open>
  The answer to the fill prompt: the request fails; the answer holds no JSON text; or it
  does, and \<open>FillJson first second\<close> gives what \<^verbatim>\<open>JSON.parse\<close> returns on the cleaned text
  and on the more aggressively cleaned text (\<open>None\<close> when it throws).
\<close>

datatype fill_reply =
    FillServiceError
  | FillNoJson
  | FillJson "jsval option" "jsval option"

record fill_env =
  flipkart_images :: "string list"
  fill_capture_ok :: bool
  fill_reply :: fill_reply
  fill_text_answer :: "jsval option"

definition images_length_zero :: "obj \<Rightarrow> bool" where
  "images_length_zero productData =
     strict_equal (opt_member (get_prop productData ''images'') ''length'') (JNum (Finite 0))"

definition missing_fields :: "obj \<Rightarrow> string list" where
  "missing_fields productData =
     (if \<not> truthy (get_prop productData ''title'') then [''title''] else [])
     @ (if \<not> truthy (get_prop productData ''price'') then [''price''] else [])
     @ (if \<not> truthy (get_prop productData ''description'') then [''description''] else [])
     @ (if \<not> truthy (get_prop productData ''weight'') then [''weight''] else [])
     @ (if \<not> truthy (get_prop productData ''category'') then [''category''] else [])
     @ (if images_length_zero productData then [''images''] else [])"

text \<open>The three merges of \<^verbatim>\<open>fillMissingDataWithAI\<close>: after the first parse (images and
  variants merged), after the second parse (images only), after the text-only answer
  (plain spread).\<close>

definition fill_images :: "obj \<Rightarrow> jsval \<Rightarrow> error + jsval" where
  "fill_images productData missingData =
     try_bind (iterate (js_or (get_prop productData ''images'') (JArr []))) (\<lambda>xs.
     try_bind (member missingData ''images'') (\<lambda>mi.
     try_bind (iterate (js_or mi (JArr []))) (\<lambda>ys.
     Inr (JArr (dedupe (xs @ ys))))))"

definition fill_merge_first :: "obj \<Rightarrow> jsval \<Rightarrow> error + obj" where
  "fill_merge_first productData missingData =
     try_bind (fill_images productData missingData) (\<lambda>images.
     try_bind (member missingData ''variants'') (\<lambda>mv.
     Inr (set_prop
           (set_prop (spread_into (spread_into [] (JObj productData)) missingData) ''images'' images)
           ''variants''
           (JObj (spread_into (spread_into [] (js_or (get_prop productData ''variants'') (JObj [])))
                              (js_or mv (JObj [])))))))"

definition fill_merge_second :: "obj \<Rightarrow> jsval \<Rightarrow> error + obj" where
  "fill_merge_second productData cleanedData =
     try_bind (fill_images productData cleanedData) (\<lambda>images.
     Inr (set_prop (spread_into (spread_into [] (JObj productData)) cleanedData) ''images'' images))"

definition fill_merge_text :: "obj \<Rightarrow> jsval \<Rightarrow> obj" where
  "fill_merge_text productData textMissingData =
     spread_into (spread_into [] (JObj productData)) textMissingData"

text \<open>The generic Flipkart weight guessed from the title, after every AI attempt has fallen
  through. \<^verbatim>\<open>(productData.title || "").toLowerCase()\<close> throws on a truthy title that is
  not a string; the outer \<^verbatim>\<open>catch\<close> then returns \<^verbatim>\<open>productData\<close> as it is.\<close>

definition generic_weight :: "string list \<Rightarrow> obj \<Rightarrow> obj" where
  "generic_weight missingFields productData =
     (if ''weight'' \<in> set missingFields \<and> get_prop productData ''source'' = JStr ''flipkart''
      then (case js_or (get_prop productData ''title'') (JStr []) of
              JStr t \<Rightarrow>
                (let titleLower = toLowerCase t in
                 if str_includes titleLower ''watch'' \<or> str_includes titleLower ''smartwatch''
                 then set_prop productData ''weight'' (JStr ''Approx. 30-80g (typical smartwatch weight)'')
                 else if str_includes titleLower ''phone'' \<or> str_includes titleLower ''smartphone''
                 then set_prop productData ''weight'' (JStr ''Approx. 150-200g (typical smartphone weight)'')
                 else if str_includes titleLower ''laptop''
                 then set_prop productData ''weight'' (JStr ''Approx. 1.5-2kg (typical laptop weight)'')
                 else if str_includes titleLower ''tablet''
                 then set_prop productData ''weight'' (JStr ''Approx. 300-500g (typical tablet weight)'')
                 else if str_includes titleLower ''headphone'' \<or> str_includes titleLower ''earphone''
                         \<or> str_includes titleLower ''earbud''
                 then set_prop productData ''weight''
                        (JStr ''Approx. 5-20g per earbud (typical earphone weight)'')
                 else productData)
            | _ \<Rightarrow> productData)
      else productData)"

text \<open>The Flipkart image step: when \<^verbatim>\<open>images\<close> is missing on Flipkart and
  \<^verbatim>\<open>getFlipkartFullSizeImages\<close> finds some, they are assigned and \<^verbatim>\<open>images\<close> leaves the
  list of missing fields.\<close>

definition flipkart_step :: "fill_env \<Rightarrow> obj \<Rightarrow> string list \<Rightarrow> obj \<times> string list" where
  "flipkart_step env productData missingFields =
     (if get_prop productData ''source'' = JStr ''flipkart'' \<and> ''images'' \<in> set missingFields
         \<and> length (flipkart_images env) > 0
      then (set_prop productData ''images'' (JArr (map JStr (flipkart_images env))),
            remove1 ''images'' missingFields)
      else (productData, missingFields))"

definition parsed_or_throw :: "jsval option \<Rightarrow> error + jsval" where
  "parsed_or_throw p = (case p of None \<Rightarrow> Inl (Error ''SyntaxError'') | Some v \<Rightarrow> Inr v)"

definition fill_from_ai :: "fill_env \<Rightarrow> string list \<Rightarrow> obj \<Rightarrow> event list \<times> obj" where
  "fill_from_ai env missingFields productData =
     (case fill_reply env of
        FillJson first second \<Rightarrow>
          (case try_bind (parsed_or_throw first) (fill_merge_first productData) of
             Inr r \<Rightarrow> ([GenerateContent FillMissing], r)
           | Inl e \<Rightarrow>
               (case try_bind (parsed_or_throw second) (fill_merge_second productData) of
                  Inr r \<Rightarrow> ([GenerateContent FillMissing], r)
                | Inl e' \<Rightarrow> ([GenerateContent FillMissing], generic_weight missingFields productData)))
      | FillNoJson \<Rightarrow> ([GenerateContent FillMissing], generic_weight missingFields productData)
      | FillServiceError \<Rightarrow>
          (case fill_text_answer env of
             Some textMissingData \<Rightarrow>
               ([GenerateContent FillMissing, GenerateContent FillMissing],
                fill_merge_text productData textMissingData)
           | None \<Rightarrow>
               ([GenerateContent FillMissing, GenerateContent FillMissing],
                generic_weight missingFields productData)))"

definition fillMissingDataWithAI :: "fill_env \<Rightarrow> obj \<Rightarrow> event list \<times> obj" where
  "fillMissingDataWithAI env productData =
     (let missingFields = missing_fields productData in
      if length missingFields = 0 then ([FillMissingDataWithAI], productData)
      else
        (let (productData1, missingFields1) = flipkart_step env productData missingFields in
         if length missingFields1 = 0 then ([FillMissingDataWithAI], productData1)
         else if \<not> fill_capture_ok env then ([FillMissingDataWithAI], productData1)
         else (let (ev, r) = fill_from_ai env missingFields1 productData1 in
               (FillMissingDataWithAI # ev, r))))"

section \<open>Image selection of the index extraction\<close>

text \<open>
  The loop in the in-page code of \<^verbatim>\<open>extractBasicDataWithIndex\<close> that builds \<^verbatim>\<open>data.images\<close>
  from the scored image candidates: sort by score (highest first, stable), make each URL
  absolute, skip thumbnails, icons, logos and \<^verbatim>\<open>data:\<close> URLs, cut the query string, keep
  a URL not seen before, stop at five. \<open>origin\<close> is \<^verbatim>\<open>window.location.origin\<close>. The list
  is built in the copy of \<^verbatim>\<open>data\<close> that lives in the page, the \<open>ix_images\<close> of the value
  \<^verbatim>\<open>page.evaluate\<close> resolves to.
\<close>

record image_candidate =
  cand_url :: string
  cand_score :: int

definition absolute_url :: "string \<Rightarrow> string \<Rightarrow> string" where
  "absolute_url origin fullUrl =
     (if fullUrl \<noteq> [] \<and> \<not> startsWith fullUrl ''http'' \<and> \<not> startsWith fullUrl ''data:''
      then (if startsWith fullUrl ''//'' then ''https:'' @ fullUrl
            else if startsWith fullUrl ''/'' then origin @ fullUrl
            else origin @ ''/'' @ fullUrl)
      else fullUrl)"

definition acceptable_url :: "string \<Rightarrow> bool" where
  "acceptable_url fullUrl =
     (fullUrl \<noteq> [] \<and> \<not> str_includes fullUrl ''thumb'' \<and> \<not> str_includes fullUrl ''icon''
      \<and> \<not> str_includes fullUrl ''logo'' \<and> \<not> startsWith fullUrl ''data:'')"

text \<open>\<^verbatim>\<open>fullUrl.split('?')[0]\<close>\<close>

definition strip_query :: "string \<Rightarrow> string" where
  "strip_query fullUrl = takeWhile (\<lambda>c. c \<noteq> CHR ''?'') fullUrl"

fun top_images_loop ::
  "string \<Rightarrow> string list \<Rightarrow> string list \<Rightarrow> image_candidate list \<Rightarrow> string list" where
  "top_images_loop origin uniqueImageUrls topImages [] = topImages"
| "top_images_loop origin uniqueImageUrls topImages (img # rest) =
     (let fullUrl = absolute_url origin (cand_url img) in
      if acceptable_url fullUrl
      then (let cleaned = strip_query fullUrl in
            if cleaned \<notin> set uniqueImageUrls
            then (if length (topImages @ [cleaned]) \<ge> 5 then topImages @ [cleaned]
                  else top_images_loop origin (uniqueImageUrls @ [cleaned]) (topImages @ [cleaned]) rest)
            else top_images_loop origin uniqueImageUrls topImages rest)
      else top_images_loop origin uniqueImageUrls topImages rest)"

definition select_images :: "string \<Rightarrow> image_candidate list \<Rightarrow> string list" where
  "select_images origin imageCandidates =
     top_images_loop origin [] [] (sort_key (\<lambda>c. - cand_score c) imageCandidates)"

section \<open>Result cache\<close>

text \<open>
  The cache directory maps a file name to the content \<^verbatim>\<open>JSON.parse\<close> reads from it:
  \<^verbatim>\<open>{ timestamp, url, data }\<close> with a numeric timestamp, as \<^verbatim>\<open>cacheProduct\<close> writes it;
  \<open>None\<close> stands for a file that is absent, cannot be read or does not parse.
  \<open>md5\<close> is the hex digest of the URL. What is written is the JSON text of the
  record, so what is read back is the record after a round trip through JSON:
  \<^verbatim>\<open>undefined\<close> properties are dropped, \<^verbatim>\<open>undefined\<close> array elements and infinite
  numbers become \<^verbatim>\<open>null\<close>, negative zero becomes zero.
\<close>

record cache_file =
  cf_timestamp :: int
  cf_url :: string
  cf_data :: jsval

type_synonym cache_dir = "string \<Rightarrow> cache_file option"

fun json_number :: "jsnum \<Rightarrow> jsval" where
  "json_number (Finite n) = JNum (Finite n)"
| "json_number NegZero = JNum (Finite 0)"
| "json_number PosInfinity = JNull"
| "json_number NegInfinity = JNull"

fun json_roundtrip :: "jsval \<Rightarrow> jsval"
  and json_elements :: "jsval list \<Rightarrow> jsval list"
  and json_entries :: "(string \<times> jsval) list \<Rightarrow> (string \<times> jsval) list" where
  "json_roundtrip JUndef = JUndef"
| "json_roundtrip JNull = JNull"
| "json_roundtrip (JBool b) = JBool b"
| "json_roundtrip (JNum n) = json_number n"
| "json_roundtrip (JStr s) = JStr s"
| "json_roundtrip (JArr xs) = JArr (json_elements xs)"
| "json_roundtrip (JObj kvs) = JObj (json_entries kvs)"
| "json_elements [] = []"
| "json_elements (x # xs) = (if x = JUndef then JNull else json_roundtrip x) # json_elements xs"
| "json_entries [] = []"
| "json_entries ((k, v) # kvs) =
     (if v = JUndef then json_entries kvs else (k, json_roundtrip v) # json_entries kvs)"

definition cache_path :: "(string \<Rightarrow> string) \<Rightarrow> string \<Rightarrow> string" where
  "cache_path md5 u = md5 u @ ''.json''"

definition cache_ttl :: int where
  "cache_ttl = 24 * 60 * 60 * 1000"

text \<open>\<^verbatim>\<open>getCachedProduct(url)\<close>: \<open>now\<close> is \<^verbatim>\<open>Date.now()\<close>; every failure is a miss
  (\<^verbatim>\<open>null\<close>).\<close>

definition getCachedProduct :: "(string \<Rightarrow> string) \<Rightarrow> int \<Rightarrow> cache_dir \<Rightarrow> string \<Rightarrow> jsval" where
  "getCachedProduct md5 now cache u =
     (case cache (cache_path md5 u) of
        None \<Rightarrow> JNull
      | Some parsedData \<Rightarrow>
          (let cacheAge = now - cf_timestamp parsedData in
           if cacheAge < cache_ttl then cf_data parsedData else JNull))"

text \<open>\<^verbatim>\<open>cacheProduct(url, data)\<close>: a failed write is logged and leaves the directory as it
  was.\<close>

definition cacheProduct ::
  "(string \<Rightarrow> string) \<Rightarrow> int \<Rightarrow> bool \<Rightarrow> cache_dir \<Rightarrow> string \<Rightarrow> jsval \<Rightarrow> cache_dir" where
  "cacheProduct md5 now written cache u d =
     (if written
      then cache(cache_path md5 u \<mapsto>
             \<lparr>cf_timestamp = now, cf_url = u, cf_data = json_roundtrip d\<rparr>)
      else cache)"

section \<open>The entry point\<close>

record options =
  opt_bypassCache :: bool
  opt_checkDelivery :: bool
  opt_pincode :: string

text \<open>
  What one call of \<^verbatim>\<open>scrapeProduct\<close> meets: the clock at the cache lookup and at the cache
  write, whether the browser launches, whether a page opens, whether the navigation
  resolves, the answers to each extraction stage, the two \<^verbatim>\<open>toISOString()\<close> readings, and
  whether the cache file can be written. \<^verbatim>\<open>handlePlatformObstacles\<close>,
  \<^verbatim>\<open>createInvertedIndex\<close> and \<^verbatim>\<open>selectVariants\<close> catch their own errors and return
  nothing the pipeline reads afterwards.
\<close>

record call_env =
  now_lookup :: int
  launch_ok :: bool
  page_ok :: bool
  goto_ok :: bool
  extraction :: extract_env
  weight_specific :: "string option"
  delivery :: delivery_env
  fill :: fill_env
  iso_normalise :: string
  iso_scraped :: string
  now_write :: int
  write_ok :: bool

text \<open>\<^verbatim>\<open>if (!productData.weight) { const weightInfo = await extractWeightSpecifically(page);
  if (weightInfo) productData.weight = weightInfo; }\<close>\<close>

definition weight_step :: "call_env \<Rightarrow> obj \<Rightarrow> obj" where
  "weight_step env productData =
     (if \<not> truthy (get_prop productData ''weight'')
      then (let weightInfo = text_or_null (weight_specific env) in
            if truthy weightInfo then set_prop productData ''weight'' weightInfo else productData)
      else productData)"

definition delivery_step :: "options \<Rightarrow> call_env \<Rightarrow> obj \<Rightarrow> event list \<times> (error + obj)" where
  "delivery_step opts env productData =
     (if opt_checkDelivery opts
      then (case checkDeliveryWithAI (delivery env) (opt_pincode opts) of
              (ev, Inl e) \<Rightarrow> (ev, Inl e)
            | (ev, Inr deliveryInfo) \<Rightarrow>
                (ev, Inr (set_prop productData ''delivery'' (JObj deliveryInfo))))
      else ([], Inr productData))"

definition hasMissingData :: "obj \<Rightarrow> bool" where
  "hasMissingData productData =
     (\<not> truthy (get_prop productData ''title'') \<or> \<not> truthy (get_prop productData ''price'')
      \<or> \<not> truthy (get_prop productData ''description'') \<or> \<not> truthy (get_prop productData ''weight'')
      \<or> images_length_zero productData)"

definition fill_step :: "call_env \<Rightarrow> obj \<Rightarrow> event list \<times> obj" where
  "fill_step env productData =
     (if hasMissingData productData then fillMissingDataWithAI (fill env) productData
      else ([], productData))"

text \<open>Defaults, then the three metadata assignments.\<close>

definition finalise :: "call_env \<Rightarrow> string \<Rightarrow> string \<Rightarrow> obj \<Rightarrow> obj" where
  "finalise env platform u productData =
     set_prop
       (set_prop
         (set_prop (handleMissingData (iso_normalise env) productData) ''source'' (JStr platform))
         ''scrapedAt'' (JStr (iso_scraped env)))
       ''originalUrl'' (JStr u)"

text \<open>The body of the \<^verbatim>\<open>try\<close> block of \<^verbatim>\<open>scrapeProduct\<close>, from \<^verbatim>\<open>browser.newPage()\<close> to
  the \<^verbatim>\<open>return\<close>.\<close>

definition session ::
  "(string \<Rightarrow> string) \<Rightarrow> options \<Rightarrow> call_env \<Rightarrow> cache_dir \<Rightarrow> string
     \<Rightarrow> (error + jsval) \<times> cache_dir \<times> event list" where
  "session md5 opts env cache u =
     (if \<not> page_ok env then (Inl (Error ''newPage rejected''), cache, [NewPage])
      else case detectPlatform u of
             Inl e \<Rightarrow> (Inl e, cache, [NewPage])
           | Inr platform \<Rightarrow>
               if \<not> goto_ok env
               then (Inl (Error ''Navigation timeout''), cache, [NewPage, Navigate u])
               else
                 (let (ev1, productData1) = extractDataWithIndexAndAI (extraction env) platform;
                      productData2 = weight_step env productData1;
                      (ev2, r) = delivery_step opts env productData2
                  in case r of
                       Inl e \<Rightarrow> (Inl e, cache, [NewPage, Navigate u] @ ev1 @ ev2)
                     | Inr productData3 \<Rightarrow>
                         (let (ev3, productData4) = fill_step env productData3;
                              productData5 = finalise env platform u productData4
                          in case validateScrapedData productData5 of
                               Inl e \<Rightarrow> (Inl e, cache, [NewPage, Navigate u] @ ev1 @ ev2 @ ev3)
                             | Inr ok \<Rightarrow>
                                 (Inr (JObj productData5),
                                  cacheProduct md5 (now_write env) (write_ok env) cache u
                                    (JObj productData5),
                                  [NewPage, Navigate u] @ ev1 @ ev2 @ ev3 @ [WriteCache u]))))"

text \<open>The \<^verbatim>\<open>catch\<close> of \<^verbatim>\<open>scrapeProduct\<close>: a \<^verbatim>\<open>ScraperError\<close> is rethrown, anything else
  becomes a \<^verbatim>\<open>ScraperError\<close> with status 500.\<close>

fun rethrow :: "error + jsval \<Rightarrow> error + jsval" where
  "rethrow (Inl (ScraperError m c)) = Inl (ScraperError m c)"
| "rethrow (Inl (Error m)) = Inl (ScraperError (''Error scraping product: '' @ m) 500)"
| "rethrow (Inr r) = Inr r"

text \<open>
  \<^verbatim>\<open>scrapeProduct(url, options)\<close>: the cache lookup unless bypassed; then the browser is
  launched (outside the \<^verbatim>\<open>try\<close>, so a failed launch propagates as it is), the session
  runs, and \<^verbatim>\<open>finally\<close> closes the browser.
\<close>

definition scrapeProduct ::
  "(string \<Rightarrow> string) \<Rightarrow> options \<Rightarrow> call_env \<Rightarrow> cache_dir \<Rightarrow> string
     \<Rightarrow> (error + jsval) \<times> cache_dir \<times> event list" where
  "scrapeProduct md5 opts env cache u =
     (let cachedData =
            (if \<not> opt_bypassCache opts then getCachedProduct md5 (now_lookup env) cache u
             else JNull)
      in if \<not> opt_bypassCache opts \<and> truthy cachedData then (Inr cachedData, cache, [])
         else if \<not> launch_ok env then (Inl (Error ''Failed to launch the browser''), cache, [LaunchBrowser])
         else (case session md5 opts env cache u of
                 (res, cache', ev) \<Rightarrow> (rethrow res, cache', LaunchBrowser # ev @ [CloseBrowser])))"

section \<open>The product record\<close>

definition product_fields :: "string list" where
  "product_fields =
     [''title'', ''price'', ''originalPrice'', ''description'', ''features'', ''variants'',
      ''images'', ''delivery'', ''weight'', ''category'', ''source'', ''scrapedAt'',
      ''originalUrl'']"

section \<open>Values that survive the cache file\<close>

text \<open>
  A value that comes back from \<^verbatim>\<open>JSON.stringify\<close> and \<^verbatim>\<open>JSON.parse\<close> as it went in: it
  holds no \<^verbatim>\<open>undefined\<close> anywhere, and every number in it is finite and not negative zero
  (\<^verbatim>\<open>JSON.parse\<close> itself returns an infinity for a literal such as \<^verbatim>\<open>1e999\<close>, and negative
  zero for \<^verbatim>\<open>-0\<close>). A value read from an object may also be \<^verbatim>\<open>undefined\<close> itself (the
  key is absent): it is then called loose.
\<close>

fun finite_number :: "jsnum \<Rightarrow> bool" where
  "finite_number (Finite n) = True"
| "finite_number n = False"

fun is_json :: "jsval \<Rightarrow> bool"
  and all_json :: "jsval list \<Rightarrow> bool"
  and entries_json :: "(string \<times> jsval) list \<Rightarrow> bool" where
  "is_json JUndef = False"
| "is_json JNull = True"
| "is_json (JBool b) = True"
| "is_json (JNum n) = finite_number n"
| "is_json (JStr s) = True"
| "is_json (JArr xs) = all_json xs"
| "is_json (JObj kvs) = entries_json kvs"
| "all_json [] = True"
| "all_json (x # xs) = (is_json x \<and> all_json xs)"
| "entries_json [] = True"
| "entries_json ((k, v) # kvs) = (is_json v \<and> entries_json kvs)"

definition loose :: "jsval \<Rightarrow> bool" where
  "loose v = (if v = JUndef then True else is_json v)"

text \<open>The condition on one call that every answer of the AI service that parses is such
  a value, and that the delivery readings taken from the page are loose.\<close>

fun json_answer :: "jsval option \<Rightarrow> bool" where
  "json_answer None = True"
| "json_answer (Some v) = is_json v"

definition json_vision :: "vision_env \<Rightarrow> bool" where
  "json_vision env = (json_answer (vis_image_answer env) \<and> json_answer (vis_text_answer env))"

fun json_delivery_reply :: "delivery_reply \<Rightarrow> bool" where
  "json_delivery_reply (DeliveryJson a) = json_answer a"
| "json_delivery_reply r = True"

fun json_text :: "delivery_text option \<Rightarrow> bool" where
  "json_text None = True"
| "json_text (Some t) = (loose (dt_available t) \<and> loose (dt_estimatedDate t) \<and> loose (dt_charges t))"

definition json_delivery :: "delivery_env \<Rightarrow> bool" where
  "json_delivery env =
     (loose (rd_available (direct env)) \<and> loose (rd_estimatedDate (direct env))
      \<and> loose (rd_charges (direct env)) \<and> json_text (page_text env)
      \<and> json_delivery_reply (dlv_reply env))"

fun json_fill_reply :: "fill_reply \<Rightarrow> bool" where
  "json_fill_reply (FillJson a b) = (json_answer a \<and> json_answer b)"
| "json_fill_reply r = True"

definition json_fill :: "fill_env \<Rightarrow> bool" where
  "json_fill env = (json_fill_reply (fill_reply env) \<and> json_answer (fill_text_answer env))"

definition json_answers :: "call_env \<Rightarrow> bool" where
  "json_answers env =
     (json_vision (vision_first (extraction env)) \<and> json_vision (vision_retry (extraction env))
      \<and> json_delivery (delivery env) \<and> json_fill (fill env))"

text \<open>
  What the stages keep true of the product object on its way through the pipeline: every
  field is loose, except that \<^verbatim>\<open>delivery\<close> may be an object whose own fields are loose
  (the delivery record copies fields of the AI answer that may be absent).
\<close>

fun shallow_loose :: "jsval \<Rightarrow> bool" where
  "shallow_loose (JObj kvs) = list_all (\<lambda>kv. loose (snd kv)) kvs"
| "shallow_loose v = loose v"

definition field_ok :: "string \<times> jsval \<Rightarrow> bool" where
  "field_ok kv = (if fst kv = ''delivery'' then shallow_loose (snd kv) else loose (snd kv))"

definition record_ok :: "obj \<Rightarrow> bool" where
  "record_ok productData = list_all field_ok productData"


section \<open>Sample answers of the outside world\<close>

text \<open>A Flipkart page without delivery text, as \<^verbatim>\<open>checkFlipkartDeliveryDate\<close> reports it,
  and a page on which every delivery strategy comes back empty.\<close>

definition delivery_env_unavailable :: delivery_env where
  "delivery_env_unavailable =
     \<lparr> direct = \<lparr> rd_available = JNull,
                   rd_estimatedDate = JStr ''Delivery information unavailable'',
                   rd_charges = JNull \<rparr>,
       pincode_scan_ok = True,
       page_text = Some \<lparr> dt_found = False, dt_available = JUndef,
                           dt_estimatedDate = JUndef, dt_charges = JUndef \<rparr>,
       dlv_screenshot_ok = True,
       dlv_reply = DeliveryNoJson \<rparr>"

definition delivery_env_nothing :: delivery_env where
  "delivery_env_nothing =
     \<lparr> direct = \<lparr> rd_available = JNull, rd_estimatedDate = JNull, rd_charges = JNull \<rparr>,
       pincode_scan_ok = True,
       page_text = Some \<lparr> dt_found = False, dt_available = JUndef,
                           dt_estimatedDate = JUndef, dt_charges = JUndef \<rparr>,
       dlv_screenshot_ok = True,
       dlv_reply = DeliveryJson None \<rparr>"

text \<open>Three pages on which one strategy succeeds: the platform-specific reading is clear;
  it is not, and the page text holds a delivery sentence; neither, and the AI service
  answers the screenshot prompt with an object that has no \<^verbatim>\<open>available\<close> key.\<close>

definition delivery_env_direct :: delivery_env where
  "delivery_env_direct =
     delivery_env_nothing
       \<lparr> direct := \<lparr> rd_available = JBool True,
                      rd_estimatedDate = JStr ''FREE delivery Tuesday, 12 March'',
                      rd_charges = JStr ''FREE'' \<rparr> \<rparr>"

definition delivery_env_text :: delivery_env where
  "delivery_env_text =
     delivery_env_nothing
       \<lparr> page_text := Some \<lparr> dt_found = True, dt_available = JBool True,
                             dt_estimatedDate = JStr ''Friday standard delivery'',
                             dt_charges = JStr ''Check at checkout'' \<rparr> \<rparr>"

definition delivery_env_ai :: delivery_env where
  "delivery_env_ai =
     delivery_env_nothing
       \<lparr> dlv_reply := DeliveryJson (Some (JObj [(''estimatedDate'', JStr ''3-5 days''),
                                                (''charges'', JStr ''Free'')])) \<rparr>"

text \<open>What the in-page code of the index extraction computes on a shirt page (title, one
  feature and one image, no price), and the AI vision answer for the same page: it
  carries the price (the rupee sign in UTF-8).\<close>

definition rupee_999 :: string where
  "rupee_999 = [CHR 0xE2, CHR 0x82, CHR 0xB9] @ ''999''"



text \<open>The heuristics of the fallback extraction finding nothing, and an AI service that
  is down.\<close>

definition empty_index :: index_result where
  "empty_index =
     \<lparr> ix_title = None, ix_price = None, ix_originalPrice = None, ix_description = None,
       ix_features = [], ix_images = [], ix_weight = None, ix_category = None \<rparr>"

definition silent_vision :: vision_env where
  "silent_vision =
     \<lparr> vis_capture_ok = True, vis_image_answer = None, vis_text_answer = None,
       vis_fallback = empty_index \<rparr>"



text \<open>A call on a page where the in-page code finds nothing, the AI service is down,
  the heuristics find nothing, and no delivery strategy succeeds; and the default
  options of \<^verbatim>\<open>scrapeProduct\<close>.\<close>

definition silent_fill :: fill_env where
  "silent_fill =
     \<lparr> flipkart_images = [], fill_capture_ok = True, fill_reply = FillServiceError,
       fill_text_answer = None \<rparr>"

definition blank_page :: call_env where
  "blank_page =
     \<lparr> now_lookup = 1700000000000,
       launch_ok = True, page_ok = True, goto_ok = True,
       extraction = \<lparr> in_page = Some empty_index, vision_first = silent_vision,
                      vision_retry = silent_vision \<rparr>,
       weight_specific = None,
       delivery = delivery_env_nothing,
       fill = silent_fill,
       iso_normalise = ''2023-11-14T22:13:25.000Z'',
       iso_scraped = ''2023-11-14T22:13:25.001Z'',
       now_write = 1700000005001,
       write_ok = True \<rparr>"

definition default_options :: options where
  "default_options =
     \<lparr> opt_bypassCache = False, opt_checkDelivery = True, opt_pincode = ''201001'' \<rparr>"

text \<open>A digest stand-in for closed examples (any function of the URL will do).\<close>

definition plain_digest :: "string \<Rightarrow> string" where
  "plain_digest u = u"

text \<open>A cache directory with one entry, written at time 1700000000000 for a Myntra URL.\<close>

definition cached_shirt :: jsval where
  "cached_shirt =
     JObj [(''title'', JStr ''Cotton Shirt''), (''price'', JStr rupee_999),
           (''originalPrice'', JNull),
           (''description'', JStr ''A plain cotton shirt.''),
           (''features'', JArr [JStr ''Pure cotton'']),
           (''variants'', JObj [(''sizes'', JArr [JStr ''M'', JStr ''L'']), (''colors'', JArr []),
                                (''other'', JArr [])]),
           (''images'', JArr [JStr ''https://img.example.com/p/1.jpg'']),
           (''delivery'',
            JObj [(''available'', JBool True),
                  (''estimatedDate'', JStr ''Friday standard delivery''),
                  (''charges'', JStr ''Free''),
                  (''pincode'', JStr ''201001'')]),
           (''weight'', JStr ''250 g''), (''category'', JStr ''Shirts''),
           (''source'', JStr ''myntra''),
           (''scrapedAt'', JStr ''2023-11-14T22:13:19.990Z''),
           (''originalUrl'', JStr ''https://www.myntra.com/shirts/123'')]"

definition one_entry_cache :: cache_dir where
  "one_entry_cache =
     Map.empty(cache_path plain_digest ''https://www.myntra.com/shirts/123'' \<mapsto>
       \<lparr> cf_timestamp = 1700000000000, cf_url = ''https://www.myntra.com/shirts/123'',
         cf_data = cached_shirt \<rparr>)"

text \<open>A shirt page on which the in-page code of the index extraction finds title, price,
  description, one image and the weight, and the AI service answers the screenshot
  prompt with a record of its own.\<close>

definition complete_index :: index_result where
  "complete_index =
     \<lparr> ix_title = Some ''Cotton Shirt'', ix_price = Some ''499'', ix_originalPrice = None,
       ix_description = Some ''A plain cotton shirt.'', ix_features = [],
       ix_images = [''https://img.example.com/p/1.jpg''],
       ix_weight = Some ''250 g'', ix_category = Some ''Shirts'' \<rparr>"

definition ai_shirt :: jsval where
  "ai_shirt =
     JObj [ (''title'', JStr ''Cotton Shirt for Men''),
            (''price'', JStr rupee_999),
            (''description'', JStr ''Regular fit shirt in pure cotton.''),
            (''images'', JArr [JStr ''https://img.example.com/p/1.jpg'',
                               JStr ''https://img.example.com/p/2.jpg'',
                               JStr ''https://img.example.com/p/1.jpg'']),
            (''weight'', JStr ''250g''),
            (''category'', JStr ''Shirts'') ]"

definition shirt_page :: call_env where
  "shirt_page =
     blank_page
       \<lparr> extraction := \<lparr> in_page = Some complete_index,
                        vision_first = silent_vision\<lparr>vis_image_answer := Some ai_shirt\<rparr>,
                        vision_retry = silent_vision \<rparr> \<rparr>"

text \<open>The record \<^verbatim>\<open>scrapeProduct\<close> returns for the shirt page, and the one it returns for
  the blank page, both on Myntra.\<close>

definition shirt_record :: jsval where
  "shirt_record =
     JObj [(''title'', JStr ''Cotton Shirt for Men''), (''price'', JStr rupee_999),
           (''originalPrice'', JNull),
           (''description'', JStr ''Regular fit shirt in pure cotton.''),
           (''features'', JArr []),
           (''variants'', JObj [(''sizes'', JArr []), (''colors'', JArr []), (''other'', JArr [])]),
           (''images'', JArr [JStr ''https://img.example.com/p/1.jpg'',
                              JStr ''https://img.example.com/p/2.jpg'']),
           (''delivery'',
            JObj [(''available'', JBool True),
                  (''estimatedDate'',
                   JStr ''Standard delivery available, check at checkout for exact timeframe''),
                  (''charges'', JStr ''Check at checkout''),
                  (''pincode'', JStr ''201001'')]),
           (''weight'', JStr ''250g''), (''category'', JStr ''Shirts''),
           (''source'', JStr ''myntra''),
           (''scrapedAt'', JStr ''2023-11-14T22:13:25.001Z''),
           (''originalUrl'', JStr ''https://www.myntra.com/shirts/123'')]"

definition unknown_record :: jsval where
  "unknown_record =
     JObj [(''title'', JStr ''Unknown Product''), (''price'', JNull),
           (''originalPrice'', JNull),
           (''description'', JStr ''No description available''),
           (''features'', JArr []),
           (''variants'', JObj [(''sizes'', JArr []), (''colors'', JArr []), (''other'', JArr [])]),
           (''images'', JArr []),
           (''delivery'',
            JObj [(''available'', JBool True),
                  (''estimatedDate'',
                   JStr ''Standard delivery available, check at checkout for exact timeframe''),
                  (''charges'', JStr ''Check at checkout''),
                  (''pincode'', JStr ''201001'')]),
           (''weight'', JNull), (''category'', JStr ''Uncategorized''),
           (''source'', JStr ''myntra''),
           (''scrapedAt'', JStr ''2023-11-14T22:13:25.001Z''),
           (''originalUrl'', JStr ''https://www.myntra.com/shirts/123'')]"

text \<open>The shirt page an hour later: the same answers, a later clock. And the blank page
  24 hours after the entry of the cache directory above was written.\<close>

definition shirt_page_later :: call_env where
  "shirt_page_later =
     shirt_page
       \<lparr> now_lookup := 1700003600000,
         iso_normalise := ''2023-11-14T23:13:25.000Z'',
         iso_scraped := ''2023-11-14T23:13:25.001Z'',
         now_write := 1700003605001 \<rparr>"

definition blank_page_next_day :: call_env where
  "blank_page_next_day =
     blank_page
       \<lparr> now_lookup := 1700086400000,
         iso_normalise := ''2023-11-15T22:13:25.000Z'',
         iso_scraped := ''2023-11-15T22:13:25.001Z'',
         now_write := 1700086405001 \<rparr>"

definition unknown_record_next_day :: jsval where
  "unknown_record_next_day =
     JObj [(''title'', JStr ''Unknown Product''), (''price'', JNull),
           (''originalPrice'', JNull),
           (''description'', JStr ''No description available''),
           (''features'', JArr []),
           (''variants'', JObj [(''sizes'', JArr []), (''colors'', JArr []), (''other'', JArr [])]),
           (''images'', JArr []),
           (''delivery'',
            JObj [(''available'', JBool True),
                  (''estimatedDate'',
                   JStr ''Standard delivery available, check at checkout for exact timeframe''),
                  (''charges'', JStr ''Check at checkout''),
                  (''pincode'', JStr ''201001'')]),
           (''weight'', JNull), (''category'', JStr ''Uncategorized''),
           (''source'', JStr ''myntra''),
           (''scrapedAt'', JStr ''2023-11-15T22:13:25.001Z''),
           (''originalUrl'', JStr ''https://www.myntra.com/shirts/123'')]"




text \<open>Image candidates of one page: a relative URL, a protocol-relative one twice (with
  different query strings), an embedded image and a thumbnail.\<close>

definition sample_candidates :: "image_candidate list" where
  "sample_candidates =
     [ \<lparr> cand_url = ''/img/main.jpg?w=200'', cand_score = 8 \<rparr>,
       \<lparr> cand_url = ''//cdn.example.com/zoom/1.jpg?v=1'', cand_score = 10 \<rparr>,
       \<lparr> cand_url = ''//cdn.example.com/zoom/1.jpg?v=2'', cand_score = 9 \<rparr>,
       \<lparr> cand_url = ''data:image/gif;base64,R0lGOD=='', cand_score = 7 \<rparr>,
       \<lparr> cand_url = ''https://cdn.example.com/thumb/1.jpg'', cand_score = 6 \<rparr> ]"

text \<open>An AI vision answer whose price is a number beyond the double range, which
  \<^verbatim>\<open>JSON.parse\<close> reads as an infinity.\<close>

definition ai_huge_price :: jsval where
  "ai_huge_price =
     JObj [ (''title'', JStr ''Cotton Shirt for Men''),
            (''price'', JNum PosInfinity),
            (''description'', JStr ''Regular fit shirt in pure cotton.''),
            (''images'', JArr [JStr ''https://img.example.com/p/1.jpg'']),
            (''weight'', JStr ''250g''),
            (''category'', JStr ''Shirts'') ]"

definition huge_price_page :: call_env where
  "huge_price_page =
     blank_page
       \<lparr> extraction := \<lparr> in_page = Some complete_index,
                        vision_first = silent_vision\<lparr>vis_image_answer := Some ai_huge_price\<rparr>,
                        vision_retry = silent_vision \<rparr> \<rparr>"

text \<open>The record \<^verbatim>\<open>scrapeProduct\<close> builds for the shirt page an hour later.\<close>

definition shirt_record_later :: jsval where
  "shirt_record_later =
     JObj [(''title'', JStr ''Cotton Shirt for Men''), (''price'', JStr rupee_999),
           (''originalPrice'', JNull),
           (''description'', JStr ''Regular fit shirt in pure cotton.''),
           (''features'', JArr []),
           (''variants'', JObj [(''sizes'', JArr []), (''colors'', JArr []), (''other'', JArr [])]),
           (''images'', JArr [JStr ''https://img.example.com/p/1.jpg'',
                              JStr ''https://img.example.com/p/2.jpg'']),
           (''delivery'',
            JObj [(''available'', JBool True),
                  (''estimatedDate'',
                   JStr ''Standard delivery available, check at checkout for exact timeframe''),
                  (''charges'', JStr ''Check at checkout''),
                  (''pincode'', JStr ''201001'')]),
           (''weight'', JStr ''250g''), (''category'', JStr ''Shirts''),
           (''source'', JStr ''myntra''),
           (''scrapedAt'', JStr ''2023-11-14T23:13:25.001Z''),
           (''originalUrl'', JStr ''https://www.myntra.com/shirts/123'')]"

section \<open>Objects: reading after writing\<close>

lemma get_prop_set_prop:
  "get_prop (set_prop kvs k v) k' = (if k' = k then v else get_prop kvs k')"
  by (induction kvs) (auto simp: get_prop_def)

lemma keys_set_prop: "fst ` set (set_prop kvs k v) = insert k (fst ` set kvs)"
  by (induction kvs) force+





lemma keys_assign_all:
  "fst ` set (foldl (\<lambda>acc (k, x). set_prop acc k x) target kvs) = fst ` set target \<union> fst ` set kvs"
proof (induction kvs arbitrary: target)
  case Nil
  then show ?case by simp
next
  case (Cons a kvs)
  obtain k v where a: "a = (k, v)" by (cases a)
  show ?case by (simp add: a Cons.IH keys_set_prop)
qed

section \<open>Normalisation leaves no field undefined\<close>

lemma js_or_defined: "b \<noteq> JUndef \<Longrightarrow> js_or a b \<noteq> JUndef"
  by (cases a) (auto simp: js_or_def)

lemma nullish_defined: "b \<noteq> JUndef \<Longrightarrow> nullish a b \<noteq> JUndef"
  by (cases a) auto

lemma array_or_empty_isArray: "isArray (array_or_empty v)"
  by (simp add: array_or_empty_def)

lemma isArray_defined: "isArray v \<Longrightarrow> v \<noteq> JUndef"
  by (cases v) auto

section \<open>Delivery inquiry is total\<close>

lemma delivery_from_ai_shape:
  "\<exists>ev a d c. delivery_from_ai env pin = (ev, delivery_object a d c pin)"
  by (auto simp: delivery_from_ai_def generic_delivery_def
      split: delivery_reply.splits option.splits sum.splits)

lemma checkDelivery_body_shape:
  "\<exists>ev. (\<exists>e. checkDelivery_body env pin = (ev, Inl e))
        \<or> (\<exists>a d c. checkDelivery_body env pin = (ev, Inr (delivery_object a d c pin)))"
proof -
  obtain ev a d c where ai: "delivery_from_ai env pin = (ev, delivery_object a d c pin)"
    using delivery_from_ai_shape by blast
  show ?thesis
    by (auto simp: checkDelivery_body_def checkDeliveryDate_def Let_def ai split: option.splits)
qed

lemma checkDeliveryWithAI_shape:
  "\<exists>ev a d c. checkDeliveryWithAI env pin = (ev, Inr (delivery_object a d c pin))"
proof -
  from checkDelivery_body_shape [of env pin]
  obtain ev where "(\<exists>e. checkDelivery_body env pin = (ev, Inl e))
        \<or> (\<exists>a d c. checkDelivery_body env pin = (ev, Inr (delivery_object a d c pin)))"
    by blast
  then show ?thesis
  proof
    assume "\<exists>e. checkDelivery_body env pin = (ev, Inl e)"
    then have "checkDeliveryWithAI env pin = (ev, Inr (caught_delivery pin))"
      by (auto simp: checkDeliveryWithAI_def)
    then show ?thesis unfolding caught_delivery_def by blast
  next
    assume "\<exists>a d c. checkDelivery_body env pin = (ev, Inr (delivery_object a d c pin))"
    then obtain a d c where "checkDelivery_body env pin = (ev, Inr (delivery_object a d c pin))"
      by blast
    then have "checkDeliveryWithAI env pin = (ev, Inr (delivery_object a d c pin))"
      by (simp add: checkDeliveryWithAI_def)
    then show ?thesis by blast
  qed
qed

lemma delivery_from_ai_fails:
  assumes "\<not> dlv_screenshot_ok env \<or> dlv_reply env = DeliveryServiceError
           \<or> dlv_reply env = DeliveryNoJson \<or> dlv_reply env = DeliveryJson None
           \<or> dlv_reply env = DeliveryJson (Some JNull)"
  shows "snd (delivery_from_ai env pin) = generic_delivery pin"
  using assms by (auto simp: delivery_from_ai_def)

text \<open>
  C10 (as amended). \<^verbatim>\<open>checkDeliveryWithAI\<close> never throws and always returns an object with the
  four keys \<^verbatim>\<open>available\<close>, \<^verbatim>\<open>estimatedDate\<close>, \<^verbatim>\<open>charges\<close>, \<^verbatim>\<open>pincode\<close>, the last one
  the pincode it was given. When the platform-specific reading is unclear (its
  \<^verbatim>\<open>estimatedDate\<close> is falsy or "Error checking delivery") and every later strategy fails
  or throws, the record is one of the two generic ones, both with \<^verbatim>\<open>available: true\<close>.
  A strategy that succeeds is returned as it reports, with nothing defaulted: a clear
  platform-specific reading is returned as it is, without a request to the AI service;
  otherwise a delivery sentence found in the page text is; otherwise the object the AI
  service answers is read field by field, a field it omits being \<^verbatim>\<open>undefined\<close>. So
  \<^verbatim>\<open>available\<close> is whatever the strategy reports, \<^verbatim>\<open>null\<close> and \<^verbatim>\<open>undefined\<close> included.
\<close>

theorem checkDeliveryWithAI_total:
  "(\<exists>ev r. checkDeliveryWithAI env pin = (ev, Inr r)
        \<and> map fst r = [''available'', ''estimatedDate'', ''charges'', ''pincode'']
        \<and> get_prop r ''pincode'' = JStr pin)
   \<and> ((\<not> truthy (rd_estimatedDate (direct env))
         \<or> rd_estimatedDate (direct env) = JStr ''Error checking delivery'')
       \<and> (\<not> pincode_scan_ok env \<or> page_text env = None
            \<or> (\<exists>t. page_text env = Some t \<and> \<not> dt_found t
                  \<and> (\<not> dlv_screenshot_ok env \<or> dlv_reply env = DeliveryServiceError
                       \<or> dlv_reply env = DeliveryNoJson \<or> dlv_reply env = DeliveryJson None
                       \<or> dlv_reply env = DeliveryJson (Some JNull))))
       \<longrightarrow> (snd (checkDeliveryWithAI env pin) = Inr (generic_delivery pin)
             \<or> snd (checkDeliveryWithAI env pin) = Inr (caught_delivery pin))
           \<and> get_prop (generic_delivery pin) ''available'' = JBool True
           \<and> get_prop (caught_delivery pin) ''available'' = JBool True)
   \<and> (truthy (rd_estimatedDate (direct env))
       \<and> rd_estimatedDate (direct env) \<noteq> JStr ''Error checking delivery''
       \<longrightarrow> checkDeliveryWithAI env pin =
             ([], Inr (delivery_object (rd_available (direct env)) (rd_estimatedDate (direct env))
                         (rd_charges (direct env)) pin)))
   \<and> (\<forall>t. (\<not> truthy (rd_estimatedDate (direct env))
             \<or> rd_estimatedDate (direct env) = JStr ''Error checking delivery'')
          \<and> pincode_scan_ok env \<and> page_text env = Some t \<and> dt_found t
       \<longrightarrow> checkDeliveryWithAI env pin =
             ([], Inr (delivery_object (dt_available t) (dt_estimatedDate t) (dt_charges t) pin)))
   \<and> (\<forall>t v. (\<not> truthy (rd_estimatedDate (direct env))
               \<or> rd_estimatedDate (direct env) = JStr ''Error checking delivery'')
          \<and> pincode_scan_ok env \<and> page_text env = Some t \<and> \<not> dt_found t
          \<and> dlv_screenshot_ok env \<and> dlv_reply env = DeliveryJson (Some v)
          \<and> v \<noteq> JNull \<and> v \<noteq> JUndef
       \<longrightarrow> checkDeliveryWithAI env pin =
             ([GenerateContent Delivery],
              Inr (delivery_object (opt_member v ''available'') (opt_member v ''estimatedDate'')
                     (opt_member v ''charges'') pin)))"
proof (intro conjI impI allI)
  obtain ev a d c where s: "checkDeliveryWithAI env pin = (ev, Inr (delivery_object a d c pin))"
    using checkDeliveryWithAI_shape by blast
  show "\<exists>ev r. checkDeliveryWithAI env pin = (ev, Inr r)
        \<and> map fst r = [''available'', ''estimatedDate'', ''charges'', ''pincode'']
        \<and> get_prop r ''pincode'' = JStr pin"
    unfolding s by (simp add: delivery_object_def get_prop_def)
next
  assume h: "(\<not> truthy (rd_estimatedDate (direct env))
         \<or> rd_estimatedDate (direct env) = JStr ''Error checking delivery'')
       \<and> (\<not> pincode_scan_ok env \<or> page_text env = None
            \<or> (\<exists>t. page_text env = Some t \<and> \<not> dt_found t
                  \<and> (\<not> dlv_screenshot_ok env \<or> dlv_reply env = DeliveryServiceError
                       \<or> dlv_reply env = DeliveryNoJson \<or> dlv_reply env = DeliveryJson None
                       \<or> dlv_reply env = DeliveryJson (Some JNull))))"
  then have unclear: "\<not> (truthy (get_prop (checkDeliveryDate env pin) ''estimatedDate'')
           \<and> get_prop (checkDeliveryDate env pin) ''estimatedDate'' \<noteq> JStr ''Error checking delivery'')"
    by (auto simp: checkDeliveryDate_def delivery_object_def get_prop_def)
  from h consider
      (scan) "\<not> pincode_scan_ok env"
    | (no_text) "pincode_scan_ok env" "page_text env = None"
    | (ai_fails) t where "pincode_scan_ok env" "page_text env = Some t" "\<not> dt_found t"
        "\<not> dlv_screenshot_ok env \<or> dlv_reply env = DeliveryServiceError
           \<or> dlv_reply env = DeliveryNoJson \<or> dlv_reply env = DeliveryJson None
           \<or> dlv_reply env = DeliveryJson (Some JNull)"
    by (cases "pincode_scan_ok env"; cases "page_text env") auto
  then show "snd (checkDeliveryWithAI env pin) = Inr (generic_delivery pin)
             \<or> snd (checkDeliveryWithAI env pin) = Inr (caught_delivery pin)"
  proof cases
    case scan
    then show ?thesis
      using unclear by (auto simp: checkDeliveryWithAI_def checkDelivery_body_def Let_def)
  next
    case no_text
    then show ?thesis
      using unclear by (auto simp: checkDeliveryWithAI_def checkDelivery_body_def Let_def)
  next
    case ai_fails
    have "snd (delivery_from_ai env pin) = generic_delivery pin"
      using ai_fails(4) by (rule delivery_from_ai_fails)
    then show ?thesis
      using unclear ai_fails(1-3)
      by (auto simp: checkDeliveryWithAI_def checkDelivery_body_def Let_def split: prod.splits)
  qed
next
  show "get_prop (generic_delivery pin) ''available'' = JBool True"
    by (simp add: generic_delivery_def delivery_object_def get_prop_def)
next
  show "get_prop (caught_delivery pin) ''available'' = JBool True"
    by (simp add: caught_delivery_def delivery_object_def get_prop_def)
next
  assume "truthy (rd_estimatedDate (direct env))
       \<and> rd_estimatedDate (direct env) \<noteq> JStr ''Error checking delivery''"
  then show "checkDeliveryWithAI env pin =
             ([], Inr (delivery_object (rd_available (direct env)) (rd_estimatedDate (direct env))
                         (rd_charges (direct env)) pin))"
    by (simp add: checkDeliveryWithAI_def checkDelivery_body_def checkDeliveryDate_def
        delivery_object_def get_prop_def Let_def)
next
  fix t
  assume h: "(\<not> truthy (rd_estimatedDate (direct env))
             \<or> rd_estimatedDate (direct env) = JStr ''Error checking delivery'')
          \<and> pincode_scan_ok env \<and> page_text env = Some t \<and> dt_found t"
  then have unclear: "\<not> (truthy (get_prop (checkDeliveryDate env pin) ''estimatedDate'')
           \<and> get_prop (checkDeliveryDate env pin) ''estimatedDate'' \<noteq> JStr ''Error checking delivery'')"
    by (auto simp: checkDeliveryDate_def delivery_object_def get_prop_def)
  show "checkDeliveryWithAI env pin =
             ([], Inr (delivery_object (dt_available t) (dt_estimatedDate t) (dt_charges t) pin))"
    using h unclear by (auto simp: checkDeliveryWithAI_def checkDelivery_body_def Let_def)
next
  fix t v
  assume h: "(\<not> truthy (rd_estimatedDate (direct env))
               \<or> rd_estimatedDate (direct env) = JStr ''Error checking delivery'')
          \<and> pincode_scan_ok env \<and> page_text env = Some t \<and> \<not> dt_found t
          \<and> dlv_screenshot_ok env \<and> dlv_reply env = DeliveryJson (Some v)
          \<and> v \<noteq> JNull \<and> v \<noteq> JUndef"
  then have unclear: "\<not> (truthy (get_prop (checkDeliveryDate env pin) ''estimatedDate'')
           \<and> get_prop (checkDeliveryDate env pin) ''estimatedDate'' \<noteq> JStr ''Error checking delivery'')"
    by (auto simp: checkDeliveryDate_def delivery_object_def get_prop_def)
  from h have "member v ''available'' = Inr (opt_member v ''available'')"
    by (cases v) auto
  then have ai: "delivery_from_ai env pin =
                   ([GenerateContent Delivery],
                    delivery_object (opt_member v ''available'') (opt_member v ''estimatedDate'')
                      (opt_member v ''charges'') pin)"
    using h by (simp add: delivery_from_ai_def)
  show "checkDeliveryWithAI env pin =
             ([GenerateContent Delivery],
              Inr (delivery_object (opt_member v ''available'') (opt_member v ''estimatedDate'')
                     (opt_member v ''charges'') pin))"
    using h unclear by (auto simp: checkDeliveryWithAI_def checkDelivery_body_def Let_def ai)
qed

theorem checkDeliveryWithAI_total_witness:
  "checkDeliveryWithAI delivery_env_nothing ''201001'' =
     ([GenerateContent Delivery], Inr (generic_delivery ''201001''))
   \<and> get_prop (generic_delivery ''201001'') ''available'' = JBool True
   \<and> checkDeliveryWithAI delivery_env_direct ''201001'' =
       ([], Inr [(''available'', JBool True),
                 (''estimatedDate'', JStr ''FREE delivery Tuesday, 12 March''),
                 (''charges'', JStr ''FREE''),
                 (''pincode'', JStr ''201001'')])
   \<and> checkDeliveryWithAI delivery_env_text ''201001'' =
       ([], Inr [(''available'', JBool True),
                 (''estimatedDate'', JStr ''Friday standard delivery''),
                 (''charges'', JStr ''Check at checkout''),
                 (''pincode'', JStr ''201001'')])
   \<and> checkDeliveryWithAI delivery_env_ai ''201001'' =
       ([GenerateContent Delivery],
        Inr [(''available'', JUndef),
             (''estimatedDate'', JStr ''3-5 days''),
             (''charges'', JStr ''Free''),
             (''pincode'', JStr ''201001'')])"
proof -
  note T = checkDeliveryWithAI_total
  have n: "checkDeliveryWithAI delivery_env_nothing ''201001'' =
     ([GenerateContent Delivery], Inr (generic_delivery ''201001''))
   \<and> get_prop (generic_delivery ''201001'') ''available'' = JBool True"
    using T [of delivery_env_nothing "''201001''"]
    by (simp add: delivery_env_nothing_def checkDeliveryWithAI_def checkDelivery_body_def
        checkDeliveryDate_def delivery_object_def delivery_from_ai_def get_prop_def Let_def)
  have d: "checkDeliveryWithAI delivery_env_direct ''201001'' =
       ([], Inr [(''available'', JBool True),
                 (''estimatedDate'', JStr ''FREE delivery Tuesday, 12 March''),
                 (''charges'', JStr ''FREE''),
                 (''pincode'', JStr ''201001'')])"
    using T [of delivery_env_direct "''201001''", THEN conjunct2, THEN conjunct2, THEN conjunct1]
    by (simp add: delivery_env_direct_def delivery_env_nothing_def delivery_object_def)
  have t: "checkDeliveryWithAI delivery_env_text ''201001'' =
       ([], Inr [(''available'', JBool True),
                 (''estimatedDate'', JStr ''Friday standard delivery''),
                 (''charges'', JStr ''Check at checkout''),
                 (''pincode'', JStr ''201001'')])"
    using T [of delivery_env_text "''201001''", THEN conjunct2, THEN conjunct2, THEN conjunct2,
             THEN conjunct1, rule_format,
             of "\<lparr> dt_found = True, dt_available = JBool True,
                   dt_estimatedDate = JStr ''Friday standard delivery'',
                   dt_charges = JStr ''Check at checkout'' \<rparr>"]
    by (simp add: delivery_env_text_def delivery_env_nothing_def delivery_object_def)
  have a: "checkDeliveryWithAI delivery_env_ai ''201001'' =
       ([GenerateContent Delivery],
        Inr [(''available'', JUndef),
             (''estimatedDate'', JStr ''3-5 days''),
             (''charges'', JStr ''Free''),
             (''pincode'', JStr ''201001'')])"
    using T [of delivery_env_ai "''201001''", THEN conjunct2, THEN conjunct2, THEN conjunct2,
             THEN conjunct2, rule_format,
             of "\<lparr> dt_found = False, dt_available = JUndef,
                   dt_estimatedDate = JUndef, dt_charges = JUndef \<rparr>"
                "JObj [(''estimatedDate'', JStr ''3-5 days''), (''charges'', JStr ''Free'')]"]
    by (simp add: delivery_env_ai_def delivery_env_nothing_def delivery_object_def get_prop_def)
  show ?thesis using n d t a by simp
qed

text \<open>
  C10 as stated fails: when the platform-specific reading carries a delivery text but no
  availability (Flipkart's "Delivery information unavailable"), it is returned as it is,
  with \<^verbatim>\<open>available: null\<close>.
\<close>

theorem checkDeliveryWithAI_null_availability_counterexample:
  "checkDeliveryWithAI delivery_env_unavailable ''201001'' =
     ([], Inr [(''available'', JNull),
               (''estimatedDate'', JStr ''Delivery information unavailable''),
               (''charges'', JNull),
               (''pincode'', JStr ''201001'')])"
  by (simp add: delivery_env_unavailable_def checkDeliveryWithAI_def checkDelivery_body_def
      checkDeliveryDate_def delivery_object_def get_prop_def Let_def)

section \<open>The merge of index and AI results\<close>





lemma merged_array_Inr:
  assumes "merged_array basicData aiData k = Inr v"
  shows "\<exists>xs ys. iterate (js_or (get_prop basicData k) (JArr [])) = Inr xs
           \<and> iterate (js_or (get_prop aiData k) (JArr [])) = Inr ys
           \<and> v = JArr (dedupe (xs @ ys))"
  using assms by (auto simp: merged_array_def try_bind_def split: sum.splits)

lemma mergeData_Inr:
  assumes "mergeData basicData aiData platform = Inr merged"
  shows "\<exists>images features.
           merged_array basicData aiData ''images'' = Inr images
         \<and> merged_array basicData aiData ''features'' = Inr features
         \<and> merged =
             set_prop
               (set_prop
                 (set_prop
                   (set_prop (spread_into (spread_into [] (JObj basicData)) (JObj aiData))
                      ''source'' (JStr platform))
                   ''images'' images)
                 ''features'' features)
               ''variants'' (merged_variants basicData aiData)"
  using assms by (auto simp: mergeData_def try_bind_def split: sum.splits)









lemma index_never_complete: "\<not> index_complete (extractBasicDataWithIndex evaluated)"
  by (simp add: index_complete_def extractBasicDataWithIndex_def initial_data_def)

lemma extractDataWithIndexAndAI_escalates:
  "extractDataWithIndexAndAI env platform =
     (let (ev1, aiData) = extractDataWithAI (vision_first env) platform in
      case mergeData (data_object (extractBasicDataWithIndex (in_page env))) aiData platform of
        Inr mergedData \<Rightarrow> (ev1, mergedData)
      | Inl e \<Rightarrow>
          (let (ev2, aiData2) = extractDataWithAI (vision_retry env) platform in
           (ev1 @ ev2, aiData2)))"
  by (simp add: extractDataWithIndexAndAI_def Let_def index_never_complete)





lemma extractDataWithAI_events:
  "\<exists>rest. fst (extractDataWithAI env platform) = ExtractDataWithAI # rest
        \<and> set rest \<subseteq> {GenerateContent Vision}"
  by (auto simp: extractDataWithAI_def split: option.splits)



section \<open>Failures of the entry point\<close>

lemma detectPlatform_unsupported:
  assumes "\<not> str_includes u ''amazon.in''" and "\<not> str_includes u ''amzn.in''"
      and "\<not> str_includes u ''flipkart.com''" and "\<not> str_includes u ''myntra.com''"
      and "\<not> str_includes u ''snapdeal.com''"
  shows "detectPlatform u = Inl (ScraperError ''Unsupported platform'' 400)"
  using assms by (simp add: detectPlatform_def)

lemma detectPlatform_error:
  "detectPlatform u = Inl e \<Longrightarrow> e = ScraperError ''Unsupported platform'' 400"
  by (auto simp: detectPlatform_def split: if_splits)

text \<open>
  C7 (as amended). For a URL that matches none of the supported platforms, when the
  cache does not answer (bypassed, or no fresh entry) and the browser launches and opens a
  page, \<^verbatim>\<open>scrapeProduct\<close> fails with the \<^verbatim>\<open>ScraperError\<close> "Unsupported platform", status
  400; the cache is left as it was; the browser has been launched, a page opened and the
  browser closed, and nothing else: no navigation takes place.
\<close>

theorem unsupported_url_fails_400:
  assumes "\<not> str_includes u ''amazon.in''" and "\<not> str_includes u ''amzn.in''"
      and "\<not> str_includes u ''flipkart.com''" and "\<not> str_includes u ''myntra.com''"
      and "\<not> str_includes u ''snapdeal.com''"
      and "opt_bypassCache opts \<or> \<not> truthy (getCachedProduct md5 (now_lookup env) cache u)"
      and "launch_ok env" and "page_ok env"
  shows "scrapeProduct md5 opts env cache u =
           (Inl (ScraperError ''Unsupported platform'' 400), cache,
            [LaunchBrowser, NewPage, CloseBrowser])"
proof -
  have p: "detectPlatform u = Inl (ScraperError ''Unsupported platform'' 400)"
    using assms(1-5) by (rule detectPlatform_unsupported)
  have s: "session md5 opts env cache u =
             (Inl (ScraperError ''Unsupported platform'' 400), cache, [NewPage])"
    using assms(8) by (simp add: session_def p)
  show ?thesis
    using assms(6,7) by (auto simp: scrapeProduct_def s Let_def)
qed

theorem unsupported_url_fails_400_witness:
  "scrapeProduct plain_digest default_options blank_page Map.empty ''https://www.example.com/item/42'' =
     (Inl (ScraperError ''Unsupported platform'' 400), Map.empty,
      [LaunchBrowser, NewPage, CloseBrowser])"
proof -
  have a: "\<not> str_includes ''https://www.example.com/item/42'' ''amazon.in''" by code_simp
  have b: "\<not> str_includes ''https://www.example.com/item/42'' ''amzn.in''" by code_simp
  have c: "\<not> str_includes ''https://www.example.com/item/42'' ''flipkart.com''" by code_simp
  have d: "\<not> str_includes ''https://www.example.com/item/42'' ''myntra.com''" by code_simp
  have e: "\<not> str_includes ''https://www.example.com/item/42'' ''snapdeal.com''" by code_simp
  have f: "opt_bypassCache default_options
           \<or> \<not> truthy (getCachedProduct plain_digest (now_lookup blank_page) Map.empty
                          ''https://www.example.com/item/42'')"
    by (simp add: getCachedProduct_def)
  have g: "launch_ok blank_page" by (simp add: blank_page_def)
  have h: "page_ok blank_page" by (simp add: blank_page_def)
  show ?thesis
    using unsupported_url_fails_400 [OF a b c d e f g h] .
qed

text \<open>
  C7 as stated fails: for an unsupported URL the renderer is invoked all the same, because
  \<^verbatim>\<open>puppeteer.launch\<close> and \<^verbatim>\<open>browser.newPage\<close> come before \<^verbatim>\<open>detectPlatform\<close>.
\<close>

theorem unsupported_url_launches_browser_counterexample:
  "snd (snd (scrapeProduct plain_digest (default_options\<lparr>opt_bypassCache := True\<rparr>) blank_page
               Map.empty ''https://shop.example.org/p/7'')) =
     [LaunchBrowser, NewPage, CloseBrowser]"
  by code_simp

text \<open>
  C8 (as amended). When the navigation fails on a supported URL (the cache not answering,
  the browser launched, a page opened), \<^verbatim>\<open>scrapeProduct\<close> fails with a \<^verbatim>\<open>ScraperError\<close> of
  status 500 after a single navigation: there is no retry.
\<close>

theorem failed_navigation_fails_500_without_retry:
  assumes "detectPlatform u = Inr platform"
      and "opt_bypassCache opts \<or> \<not> truthy (getCachedProduct md5 (now_lookup env) cache u)"
      and "launch_ok env" and "page_ok env" and "\<not> goto_ok env"
  shows "(\<exists>m. fst (scrapeProduct md5 opts env cache u) = Inl (ScraperError m 500))
       \<and> snd (snd (scrapeProduct md5 opts env cache u)) =
             [LaunchBrowser, NewPage, Navigate u, CloseBrowser]
       \<and> length (filter (\<lambda>e. e = Navigate u) (snd (snd (scrapeProduct md5 opts env cache u)))) = 1"
proof -
  have s: "session md5 opts env cache u =
             (Inl (Error ''Navigation timeout''), cache, [NewPage, Navigate u])"
    using assms(1,4,5) by (simp add: session_def)
  show ?thesis
    using assms(2,3) by (auto simp: scrapeProduct_def s Let_def)
qed

theorem failed_navigation_fails_500_without_retry_witness:
  "fst (scrapeProduct plain_digest default_options (blank_page\<lparr>goto_ok := False\<rparr>) Map.empty
          ''https://www.myntra.com/shirts/123'') =
     Inl (ScraperError ''Error scraping product: Navigation timeout'' 500)
   \<and> snd (snd (scrapeProduct plain_digest default_options (blank_page\<lparr>goto_ok := False\<rparr>)
                  Map.empty ''https://www.myntra.com/shirts/123'')) =
       [LaunchBrowser, NewPage, Navigate ''https://www.myntra.com/shirts/123'', CloseBrowser]"
proof -
  have a: "detectPlatform ''https://www.myntra.com/shirts/123'' = Inr ''myntra''" by code_simp
  have b: "opt_bypassCache default_options
           \<or> \<not> truthy (getCachedProduct plain_digest (now_lookup (blank_page\<lparr>goto_ok := False\<rparr>))
                          Map.empty ''https://www.myntra.com/shirts/123'')"
    by (simp add: getCachedProduct_def)
  have c: "launch_ok (blank_page\<lparr>goto_ok := False\<rparr>)" by (simp add: blank_page_def)
  have d: "page_ok (blank_page\<lparr>goto_ok := False\<rparr>)" by (simp add: blank_page_def)
  have e: "\<not> goto_ok (blank_page\<lparr>goto_ok := False\<rparr>)" by simp
  have m: "fst (scrapeProduct plain_digest default_options (blank_page\<lparr>goto_ok := False\<rparr>) Map.empty
          ''https://www.myntra.com/shirts/123'') =
     Inl (ScraperError ''Error scraping product: Navigation timeout'' 500)"
    by code_simp
  show ?thesis
    using failed_navigation_fails_500_without_retry [OF a b c d e] m by simp
qed

text \<open>
  C8 as stated fails: after a failed navigation the trace holds one navigation, not two.
\<close>

theorem failed_navigation_single_attempt_counterexample:
  "length (filter (\<lambda>e. e = Navigate ''https://www.flipkart.com/item/42'')
       (snd (snd (scrapeProduct plain_digest default_options (blank_page\<lparr>goto_ok := False\<rparr>)
                    Map.empty ''https://www.flipkart.com/item/42'')))) = 1
   \<and> fst (scrapeProduct plain_digest default_options (blank_page\<lparr>goto_ok := False\<rparr>)
            Map.empty ''https://www.flipkart.com/item/42'') =
       Inl (ScraperError ''Error scraping product: Navigation timeout'' 500)"
  by code_simp

lemma checkDeliveryWithAI_returns:
  "\<exists>ev r. checkDeliveryWithAI env pin = (ev, Inr r)"
  using checkDeliveryWithAI_shape [of env pin] by blast

lemma delivery_step_returns:
  "\<exists>ev productData'. delivery_step opts env productData = (ev, Inr productData')"
proof -
  obtain ev r where "checkDeliveryWithAI (delivery env) (opt_pincode opts) = (ev, Inr r)"
    using checkDeliveryWithAI_returns by blast
  then show ?thesis by (simp add: delivery_step_def)
qed


section \<open>One run of the pipeline\<close>


lemma delivery_from_ai_events:
  "set (fst (delivery_from_ai env pin)) \<subseteq> {GenerateContent Delivery}"
  by (auto simp: delivery_from_ai_def split: delivery_reply.splits option.splits sum.splits)

lemma checkDelivery_body_events:
  "set (fst (checkDelivery_body env pin)) \<subseteq> {GenerateContent Delivery}"
  using delivery_from_ai_events [of env pin]
  by (auto simp: checkDelivery_body_def Let_def split: option.splits prod.splits)

lemma checkDeliveryWithAI_events:
  "set (fst (checkDeliveryWithAI env pin)) \<subseteq> {GenerateContent Delivery}"
  using checkDelivery_body_events [of env pin]
  by (auto simp: checkDeliveryWithAI_def split: prod.splits sum.splits)

lemma delivery_step_events:
  "set (fst (delivery_step opts env pd)) \<subseteq> {GenerateContent Delivery}"
  using checkDeliveryWithAI_events [of "delivery env" "opt_pincode opts"]
  by (auto simp: delivery_step_def split: prod.splits sum.splits)


lemma fill_step_events:
  "fst (fill_step env pd) = [] \<or> (\<exists>rest. fst (fill_step env pd) = FillMissingDataWithAI # rest)"
  by (auto simp: fill_step_def fillMissingDataWithAI_def Let_def split: prod.splits)


lemma extractDataWithIndexAndAI_events:
  "\<exists>rest. fst (extractDataWithIndexAndAI env platform) = ExtractDataWithAI # rest"
proof -
  obtain rest where "fst (extractDataWithAI (vision_first env) platform) = ExtractDataWithAI # rest"
    using extractDataWithAI_events by blast
  then show ?thesis
    by (auto simp: extractDataWithIndexAndAI_escalates Let_def split: prod.splits sum.splits)
qed

lemma finalise_title:
  "get_prop (finalise env platform u pd) ''title'' = js_or (get_prop pd ''title'') (JStr ''Unknown Product'')"
  by (simp add: finalise_def get_prop_set_prop handleMissingData_def get_prop_def)

lemma finalise_title_truthy: "truthy (get_prop (finalise env platform u pd) ''title'')"
  by (simp add: finalise_title js_or_def)


lemma finalise_scrapedAt:
  "get_prop (finalise env platform u pd) ''scrapedAt'' = JStr (iso_scraped env)"
  by (simp add: finalise_def get_prop_set_prop)

text \<open>Once the page is open, the platform supported and the navigation through, the
  session runs every stage and returns the normalised record; nothing in between throws,
  and the title check comes after the title has been defaulted.\<close>

lemma session_success:
  assumes "page_ok env" and "detectPlatform u = Inr platform" and "goto_ok env"
  shows "\<exists>ev1 pd1 ev2 pd3 ev3 pd4.
           extractDataWithIndexAndAI (extraction env) platform = (ev1, pd1)
         \<and> delivery_step opts env (weight_step env pd1) = (ev2, Inr pd3)
         \<and> fill_step env pd3 = (ev3, pd4)
         \<and> session md5 opts env cache u =
             (Inr (JObj (finalise env platform u pd4)),
              cacheProduct md5 (now_write env) (write_ok env) cache u
                (JObj (finalise env platform u pd4)),
              [NewPage, Navigate u] @ ev1 @ ev2 @ ev3 @ [WriteCache u])"
proof -
  obtain ev1 pd1 where x: "extractDataWithIndexAndAI (extraction env) platform = (ev1, pd1)"
    by (cases "extractDataWithIndexAndAI (extraction env) platform")
  obtain ev2 pd3 where y: "delivery_step opts env (weight_step env pd1) = (ev2, Inr pd3)"
    using delivery_step_returns by blast
  obtain ev3 pd4 where z: "fill_step env pd3 = (ev3, pd4)"
    by (cases "fill_step env pd3")
  have v: "validateScrapedData (finalise env platform u pd4) = Inr ()"
    by (simp add: validateScrapedData_def finalise_title_truthy)
  have "session md5 opts env cache u =
          (Inr (JObj (finalise env platform u pd4)),
           cacheProduct md5 (now_write env) (write_ok env) cache u (JObj (finalise env platform u pd4)),
           [NewPage, Navigate u] @ ev1 @ ev2 @ ev3 @ [WriteCache u])"
    using assms by (simp add: session_def x y z v Let_def)
  then show ?thesis using x y z by blast
qed


lemma session_Inl:
  assumes "session md5 opts env cache u = (Inl e, c, ev)"
  shows "\<not> page_ok env \<or> \<not> goto_ok env \<or> (\<exists>e'. detectPlatform u = Inl e')"
proof (rule ccontr)
  assume "\<not> (\<not> page_ok env \<or> \<not> goto_ok env \<or> (\<exists>e'. detectPlatform u = Inl e'))"
  then obtain platform where "page_ok env" "goto_ok env" "detectPlatform u = Inr platform"
    by (cases "detectPlatform u") auto
  from session_success [OF this(1,3,2), of opts md5 cache] assms
  show False by auto
qed

text \<open>A call that is not answered by the cache and launches the browser is the session
  between launch and close; a call that returns a record with a non-empty trace has run
  the session.\<close>

lemma scrapeProduct_miss:
  assumes "opt_bypassCache opts \<or> \<not> truthy (getCachedProduct md5 (now_lookup env) cache u)"
      and "launch_ok env"
  shows "scrapeProduct md5 opts env cache u =
           (case session md5 opts env cache u of
              (res, cache', ev) \<Rightarrow> (rethrow res, cache', LaunchBrowser # ev @ [CloseBrowser]))"
  using assms by (auto simp: scrapeProduct_def Let_def)

lemma extraction_result:
  assumes "scrapeProduct md5 opts env cache u = (Inr r, c, tr)" and "tr \<noteq> []"
  shows "\<exists>ev. session md5 opts env cache u = (Inr r, c, ev) \<and> tr = LaunchBrowser # ev @ [CloseBrowser]"
proof -
  from assms have miss: "\<not> (\<not> opt_bypassCache opts \<and> truthy (getCachedProduct md5 (now_lookup env) cache u))"
    by (auto simp: scrapeProduct_def Let_def)
  obtain res c' ev where s: "session md5 opts env cache u = (res, c', ev)"
    by (cases "session md5 opts env cache u")
  from assms miss s have x: "rethrow res = Inr r" "c' = c" "tr = LaunchBrowser # ev @ [CloseBrowser]"
    by (auto simp: scrapeProduct_def Let_def split: if_splits)
  then have "res = Inr r" by (cases res rule: rethrow.cases) auto
  then show ?thesis using s x by simp
qed

text \<open>The incomplete-result check of \<^verbatim>\<open>validateScrapedData\<close> cannot fire in
  \<^verbatim>\<open>scrapeProduct\<close>: it reads the title after \<^verbatim>\<open>handleMissingData\<close> has replaced a missing
  one by "Unknown Product".\<close>

lemma incomplete_result_never_surfaced:
  "fst (scrapeProduct md5 opts env cache u) \<noteq> Inl (ScraperError m 422)"
proof
  assume a: "fst (scrapeProduct md5 opts env cache u) = Inl (ScraperError m 422)"
  obtain res c ev where s: "session md5 opts env cache u = (res, c, ev)"
    by (cases "session md5 opts env cache u")
  from a have r: "rethrow res = Inl (ScraperError m 422)"
    by (auto simp: scrapeProduct_def Let_def s split: if_splits)
  then have res: "res = Inl (ScraperError m 422)"
    by (cases res rule: rethrow.cases) auto
  from session_Inl [OF s [unfolded res]] consider
      (page) "\<not> page_ok env"
    | (platform) e' where "page_ok env" "detectPlatform u = Inl e'"
    | (navigation) platform where "page_ok env" "detectPlatform u = Inr platform" "\<not> goto_ok env"
    by (cases "detectPlatform u") auto
  then show False
  proof cases
    case page
    then show ?thesis using s res by (simp add: session_def)
  next
    case platform
    then have "e' = ScraperError ''Unsupported platform'' 400" using detectPlatform_error by blast
    then show ?thesis using platform s res by (simp add: session_def)
  next
    case navigation
    then show ?thesis using s res by (simp add: session_def)
  qed
qed




section \<open>The index result never reaches the escalation test\<close>

text \<open>
  C1 does not hold of the code. \<^verbatim>\<open>extractBasicDataWithIndex\<close> returns the literal it
  initialised, whatever its in-page code computes, so the test
  \<^verbatim>\<open>basicData.title && basicData.price && basicData.description && basicData.images?.length > 0\<close>
  of \<^verbatim>\<open>extractDataWithIndexAndAI\<close> is never true: on every page the pipeline reaches (the
  cache does not answer, the browser launches, a page opens, the platform is supported,
  the navigation succeeds), the page whose in-page extraction yields title, price,
  description and an image included, \<^verbatim>\<open>scrapeProduct\<close> invokes the AI vision extraction
  right after the navigation, and goes on to return a record.
\<close>

theorem index_result_is_discarded:
  assumes "opt_bypassCache opts \<or> \<not> truthy (getCachedProduct md5 (now_lookup env) cache u)"
      and "launch_ok env" and "page_ok env" and "detectPlatform u = Inr platform"
      and "goto_ok env"
  shows "\<not> index_complete (extractBasicDataWithIndex (in_page (extraction env)))
       \<and> (\<exists>rest. snd (snd (scrapeProduct md5 opts env cache u)) =
                    [LaunchBrowser, NewPage, Navigate u, ExtractDataWithAI] @ rest)
       \<and> (\<exists>r. fst (scrapeProduct md5 opts env cache u) = Inr r)"
proof -
  from session_success [OF assms(3,4,5), of opts md5 cache]
  obtain ev1 pd1 ev2 pd3 ev3 pd4 where
    x: "extractDataWithIndexAndAI (extraction env) platform = (ev1, pd1)" and
    s: "session md5 opts env cache u =
          (Inr (JObj (finalise env platform u pd4)),
           cacheProduct md5 (now_write env) (write_ok env) cache u
             (JObj (finalise env platform u pd4)),
           [NewPage, Navigate u] @ ev1 @ ev2 @ ev3 @ [WriteCache u])"
    by blast
  obtain rest where "ev1 = ExtractDataWithAI # rest"
    using extractDataWithIndexAndAI_events [of "extraction env" platform] x by auto
  then have tr: "snd (snd (scrapeProduct md5 opts env cache u)) =
                   [LaunchBrowser, NewPage, Navigate u, ExtractDataWithAI]
                   @ (rest @ ev2 @ ev3 @ [WriteCache u, CloseBrowser])"
    by (simp add: scrapeProduct_miss [OF assms(1,2)] s)
  have r: "fst (scrapeProduct md5 opts env cache u) = Inr (JObj (finalise env platform u pd4))"
    by (simp add: scrapeProduct_miss [OF assms(1,2)] s)
  show ?thesis
    using tr r index_never_complete by blast
qed

theorem index_result_is_discarded_witness:
  "in_page (extraction shirt_page) = Some complete_index
   \<and> index_complete complete_index
   \<and> snd (snd (scrapeProduct plain_digest default_options shirt_page Map.empty
                  ''https://www.myntra.com/shirts/123'')) =
       [LaunchBrowser, NewPage, Navigate ''https://www.myntra.com/shirts/123'',
        ExtractDataWithAI, GenerateContent Vision, GenerateContent Delivery,
        WriteCache ''https://www.myntra.com/shirts/123'', CloseBrowser]
   \<and> fst (scrapeProduct plain_digest default_options shirt_page Map.empty
            ''https://www.myntra.com/shirts/123'') = Inr shirt_record"
proof -
  let ?u = "''https://www.myntra.com/shirts/123''"
  have a: "opt_bypassCache default_options
           \<or> \<not> truthy (getCachedProduct plain_digest (now_lookup shirt_page) Map.empty ?u)"
    by (simp add: getCachedProduct_def)
  have b: "launch_ok shirt_page" "page_ok shirt_page" "goto_ok shirt_page"
    by (simp_all add: shirt_page_def blank_page_def)
  have p: "detectPlatform ?u = Inr ''myntra''" by code_simp
  have i: "in_page (extraction shirt_page) = Some complete_index"
    by (simp add: shirt_page_def)
  have c: "index_complete complete_index" by code_simp
  have t: "snd (snd (scrapeProduct plain_digest default_options shirt_page Map.empty ?u)) =
       [LaunchBrowser, NewPage, Navigate ?u, ExtractDataWithAI, GenerateContent Vision,
        GenerateContent Delivery, WriteCache ?u, CloseBrowser]"
    by code_simp
  have r: "fst (scrapeProduct plain_digest default_options shirt_page Map.empty ?u) = Inr shirt_record"
    by code_simp
  have "\<exists>rest. snd (snd (scrapeProduct plain_digest default_options shirt_page Map.empty ?u)) =
                 [LaunchBrowser, NewPage, Navigate ?u, ExtractDataWithAI] @ rest"
    using index_result_is_discarded [OF a b(1) b(2) p b(3)] by blast
  then show ?thesis using i c t r by simp
qed

section \<open>The cache\<close>

text \<open>
  C5. \<^verbatim>\<open>getCachedProduct\<close> returns the stored data when the file of the URL's digest exists
  and its timestamp is less than 24 hours (86400000 ms) old, and \<^verbatim>\<open>null\<close> when there is no
  such file or the entry is 24 hours old or older. In \<^verbatim>\<open>scrapeProduct\<close> without bypass, a
  fresh entry holding a record is returned without any renderer activity and without
  touching the cache. With no entry or a stale one the browser is launched and, when it
  launches, the call is the session between launch and close: on a supported URL whose
  page opens and loads, the call navigates to the URL, runs the extraction, returns the
  record it has just built (its \<^verbatim>\<open>scrapedAt\<close> is the time of this call) and writes that
  record to the cache.
\<close>

theorem cache_hit_iff_fresh:
  "(\<forall>f. cache (cache_path md5 u) = Some f \<and> now - cf_timestamp f < 86400000 \<longrightarrow>
        getCachedProduct md5 now cache u = cf_data f)
   \<and> (\<forall>f. cache (cache_path md5 u) = Some f \<and> now - cf_timestamp f \<ge> 86400000 \<longrightarrow>
        getCachedProduct md5 now cache u = JNull)
   \<and> (cache (cache_path md5 u) = None \<longrightarrow> getCachedProduct md5 now cache u = JNull)
   \<and> (\<forall>f. \<not> opt_bypassCache opts \<and> cache (cache_path md5 u) = Some f
          \<and> now_lookup env - cf_timestamp f < 86400000 \<and> truthy (cf_data f) \<longrightarrow>
        scrapeProduct md5 opts env cache u = (Inr (cf_data f), cache, []))
   \<and> (cache (cache_path md5 u) = None
        \<or> (\<exists>f. cache (cache_path md5 u) = Some f \<and> now_lookup env - cf_timestamp f \<ge> 86400000) \<longrightarrow>
        (\<exists>rest. snd (snd (scrapeProduct md5 opts env cache u)) = LaunchBrowser # rest)
        \<and> (launch_ok env \<longrightarrow>
             scrapeProduct md5 opts env cache u =
               (case session md5 opts env cache u of
                  (res, cache', ev) \<Rightarrow> (rethrow res, cache', LaunchBrowser # ev @ [CloseBrowser])))
        \<and> (\<forall>platform. launch_ok env \<and> page_ok env \<and> detectPlatform u = Inr platform
                       \<and> goto_ok env \<longrightarrow>
             (\<exists>ev productData.
                 scrapeProduct md5 opts env cache u =
                   (Inr (JObj (finalise env platform u productData)),
                    cacheProduct md5 (now_write env) (write_ok env) cache u
                      (JObj (finalise env platform u productData)),
                    [LaunchBrowser, NewPage, Navigate u, ExtractDataWithAI] @ ev
                      @ [WriteCache u, CloseBrowser])
               \<and> get_prop (finalise env platform u productData) ''scrapedAt''
                   = JStr (iso_scraped env))))"
proof (intro conjI allI impI)
  fix f
  assume "cache (cache_path md5 u) = Some f \<and> now - cf_timestamp f < 86400000"
  then show "getCachedProduct md5 now cache u = cf_data f"
    by (simp add: getCachedProduct_def cache_ttl_def)
next
  fix f
  assume "cache (cache_path md5 u) = Some f \<and> now - cf_timestamp f \<ge> 86400000"
  then show "getCachedProduct md5 now cache u = JNull"
    by (simp add: getCachedProduct_def cache_ttl_def)
next
  assume "cache (cache_path md5 u) = None"
  then show "getCachedProduct md5 now cache u = JNull"
    by (simp add: getCachedProduct_def)
next
  fix f
  assume "\<not> opt_bypassCache opts \<and> cache (cache_path md5 u) = Some f
          \<and> now_lookup env - cf_timestamp f < 86400000 \<and> truthy (cf_data f)"
  then show "scrapeProduct md5 opts env cache u = (Inr (cf_data f), cache, [])"
    by (simp add: scrapeProduct_def getCachedProduct_def cache_ttl_def)
next
  assume "cache (cache_path md5 u) = None
        \<or> (\<exists>f. cache (cache_path md5 u) = Some f \<and> now_lookup env - cf_timestamp f \<ge> 86400000)"
  then have miss: "getCachedProduct md5 (now_lookup env) cache u = JNull"
    by (auto simp: getCachedProduct_def cache_ttl_def)
  obtain res c ev where s: "session md5 opts env cache u = (res, c, ev)"
    by (cases "session md5 opts env cache u")
  show "\<exists>rest. snd (snd (scrapeProduct md5 opts env cache u)) = LaunchBrowser # rest"
    by (simp add: scrapeProduct_def miss s Let_def)
next
  assume "cache (cache_path md5 u) = None
        \<or> (\<exists>f. cache (cache_path md5 u) = Some f \<and> now_lookup env - cf_timestamp f \<ge> 86400000)"
    and "launch_ok env"
  then have "getCachedProduct md5 (now_lookup env) cache u = JNull"
    by (auto simp: getCachedProduct_def cache_ttl_def)
  then have "opt_bypassCache opts \<or> \<not> truthy (getCachedProduct md5 (now_lookup env) cache u)"
    by simp
  then show "scrapeProduct md5 opts env cache u =
               (case session md5 opts env cache u of
                  (res, cache', ev) \<Rightarrow> (rethrow res, cache', LaunchBrowser # ev @ [CloseBrowser]))"
    using \<open>launch_ok env\<close> by (rule scrapeProduct_miss)
next
  fix platform
  assume "cache (cache_path md5 u) = None
        \<or> (\<exists>f. cache (cache_path md5 u) = Some f \<and> now_lookup env - cf_timestamp f \<ge> 86400000)"
    and h: "launch_ok env \<and> page_ok env \<and> detectPlatform u = Inr platform \<and> goto_ok env"
  then have "getCachedProduct md5 (now_lookup env) cache u = JNull"
    by (auto simp: getCachedProduct_def cache_ttl_def)
  then have miss: "opt_bypassCache opts \<or> \<not> truthy (getCachedProduct md5 (now_lookup env) cache u)"
    by simp
  from h have p: "page_ok env" and d: "detectPlatform u = Inr platform" and g: "goto_ok env"
    and l: "launch_ok env"
    by simp_all
  from session_success [OF p d g, of opts md5 cache]
  obtain ev1 pd1 ev2 pd3 ev3 pd4 where
    x: "extractDataWithIndexAndAI (extraction env) platform = (ev1, pd1)" and
    s: "session md5 opts env cache u =
          (Inr (JObj (finalise env platform u pd4)),
           cacheProduct md5 (now_write env) (write_ok env) cache u
             (JObj (finalise env platform u pd4)),
           [NewPage, Navigate u] @ ev1 @ ev2 @ ev3 @ [WriteCache u])"
    by blast
  obtain rest where "ev1 = ExtractDataWithAI # rest"
    using extractDataWithIndexAndAI_events [of "extraction env" platform] x by auto
  then have "scrapeProduct md5 opts env cache u =
               (Inr (JObj (finalise env platform u pd4)),
                cacheProduct md5 (now_write env) (write_ok env) cache u
                  (JObj (finalise env platform u pd4)),
                [LaunchBrowser, NewPage, Navigate u, ExtractDataWithAI] @ (rest @ ev2 @ ev3)
                  @ [WriteCache u, CloseBrowser])"
    by (simp add: scrapeProduct_miss [OF miss l] s)
  then show "\<exists>ev productData.
                 scrapeProduct md5 opts env cache u =
                   (Inr (JObj (finalise env platform u productData)),
                    cacheProduct md5 (now_write env) (write_ok env) cache u
                      (JObj (finalise env platform u productData)),
                    [LaunchBrowser, NewPage, Navigate u, ExtractDataWithAI] @ ev
                      @ [WriteCache u, CloseBrowser])
               \<and> get_prop (finalise env platform u productData) ''scrapedAt''
                   = JStr (iso_scraped env)"
    using finalise_scrapedAt by blast
qed

theorem cache_hit_iff_fresh_witness:
  "getCachedProduct plain_digest 1700086399999 one_entry_cache ''https://www.myntra.com/shirts/123''
     = cached_shirt
   \<and> getCachedProduct plain_digest 1700086400000 one_entry_cache ''https://www.myntra.com/shirts/123''
     = JNull
   \<and> getCachedProduct plain_digest 1700000000001 one_entry_cache ''https://www.myntra.com/shirts/77''
     = JNull
   \<and> scrapeProduct plain_digest default_options (blank_page\<lparr>now_lookup := 1700086399999\<rparr>)
        one_entry_cache ''https://www.myntra.com/shirts/123''
     = (Inr cached_shirt, one_entry_cache, [])
   \<and> fst (scrapeProduct plain_digest default_options blank_page_next_day
            one_entry_cache ''https://www.myntra.com/shirts/123'')
     = Inr unknown_record_next_day
   \<and> snd (snd (scrapeProduct plain_digest default_options blank_page_next_day
                  one_entry_cache ''https://www.myntra.com/shirts/123''))
     = [LaunchBrowser, NewPage, Navigate ''https://www.myntra.com/shirts/123'',
        ExtractDataWithAI, GenerateContent Vision, GenerateContent Vision,
        GenerateContent Delivery, FillMissingDataWithAI, GenerateContent FillMissing,
        GenerateContent FillMissing, WriteCache ''https://www.myntra.com/shirts/123'',
        CloseBrowser]
   \<and> snd (snd (scrapeProduct plain_digest default_options
                  (blank_page\<lparr>now_lookup := 1700000000001\<rparr>)
                  one_entry_cache ''https://www.myntra.com/shirts/77''))
     = [LaunchBrowser, NewPage, Navigate ''https://www.myntra.com/shirts/77'',
        ExtractDataWithAI, GenerateContent Vision, GenerateContent Vision,
        GenerateContent Delivery, FillMissingDataWithAI, GenerateContent FillMissing,
        GenerateContent FillMissing, WriteCache ''https://www.myntra.com/shirts/77'',
        CloseBrowser]"
proof -
  let ?u = "''https://www.myntra.com/shirts/123''"
  let ?o = "''https://www.myntra.com/shirts/77''"
  let ?f = "\<lparr> cf_timestamp = 1700000000000, cf_url = ?u, cf_data = cached_shirt \<rparr>"
  let ?hit = "blank_page\<lparr>now_lookup := 1700086399999\<rparr>"
  let ?stale = "blank_page_next_day"
  let ?other = "blank_page\<lparr>now_lookup := 1700000000001\<rparr>"
  have e: "one_entry_cache (cache_path plain_digest ?u) = Some ?f"
    by (simp add: one_entry_cache_def)
  have n: "one_entry_cache (cache_path plain_digest ?o) = None"
    by (simp add: one_entry_cache_def cache_path_def plain_digest_def)
  have fresh: "getCachedProduct plain_digest 1700086399999 one_entry_cache ?u = cached_shirt"
    using cache_hit_iff_fresh [of one_entry_cache plain_digest ?u 1700086399999 default_options
             blank_page, THEN conjunct1, rule_format, of ?f] e
    by simp
  have stale: "getCachedProduct plain_digest 1700086400000 one_entry_cache ?u = JNull"
    using cache_hit_iff_fresh [of one_entry_cache plain_digest ?u 1700086400000 default_options
             blank_page, THEN conjunct2, THEN conjunct1, rule_format, of ?f] e
    by simp
  have absent: "getCachedProduct plain_digest 1700000000001 one_entry_cache ?o = JNull"
    using cache_hit_iff_fresh [of one_entry_cache plain_digest ?o 1700000000001 default_options
             blank_page, THEN conjunct2, THEN conjunct2, THEN conjunct1] n
    by simp
  have t: "truthy cached_shirt" by (simp add: cached_shirt_def)
  have b: "\<not> opt_bypassCache default_options" by (simp add: default_options_def)
  have served: "scrapeProduct plain_digest default_options ?hit one_entry_cache ?u
                  = (Inr cached_shirt, one_entry_cache, [])"
    using cache_hit_iff_fresh [of one_entry_cache plain_digest ?u 0 default_options ?hit,
             THEN conjunct2, THEN conjunct2, THEN conjunct2, THEN conjunct1, rule_format, of ?f]
          e t b
    by simp
  have again: "fst (scrapeProduct plain_digest default_options ?stale one_entry_cache ?u)
                 = Inr unknown_record_next_day"
    by code_simp
  have trace: "snd (snd (scrapeProduct plain_digest default_options ?stale one_entry_cache ?u))
     = [LaunchBrowser, NewPage, Navigate ?u,
        ExtractDataWithAI, GenerateContent Vision, GenerateContent Vision,
        GenerateContent Delivery, FillMissingDataWithAI, GenerateContent FillMissing,
        GenerateContent FillMissing, WriteCache ?u, CloseBrowser]"
    by code_simp
  have other: "snd (snd (scrapeProduct plain_digest default_options ?other one_entry_cache ?o))
     = [LaunchBrowser, NewPage, Navigate ?o,
        ExtractDataWithAI, GenerateContent Vision, GenerateContent Vision,
        GenerateContent Delivery, FillMissingDataWithAI, GenerateContent FillMissing,
        GenerateContent FillMissing, WriteCache ?o, CloseBrowser]"
    by code_simp
  show ?thesis
    by (intro conjI fresh stale absent served again trace other)
qed

section \<open>The image list\<close>

lemma startsWith_takeWhile:
  "startsWith (takeWhile P s) p \<Longrightarrow> startsWith s p"
proof (induction s p rule: startsWith.induct)
  case (1 s)
  then show ?case by simp
next
  case (2 p ps)
  then show ?case by simp
next
  case (3 c cs p ps)
  then show ?case by (cases "P c") auto
qed

lemma acceptable_cleaned_not_embedded:
  "acceptable_url fullUrl \<Longrightarrow> \<not> startsWith (strip_query fullUrl) ''data:''"
  unfolding acceptable_url_def strip_query_def
  using startsWith_takeWhile by blast

lemma top_images_loop_invariant:
  assumes "set topImages \<subseteq> set uniqueImageUrls" and "distinct topImages"
      and "length topImages < 5" and "\<forall>x \<in> set topImages. \<not> startsWith x ''data:''"
  shows "distinct (top_images_loop origin uniqueImageUrls topImages cands)
       \<and> length (top_images_loop origin uniqueImageUrls topImages cands) \<le> 5
       \<and> (\<forall>x \<in> set (top_images_loop origin uniqueImageUrls topImages cands).
             \<not> startsWith x ''data:'')"
  using assms
proof (induction cands arbitrary: uniqueImageUrls topImages)
  case Nil
  then show ?case by simp
next
  case (Cons img rest)
  let ?full = "absolute_url origin (cand_url img)"
  let ?cleaned = "strip_query ?full"
  show ?case
  proof (cases "acceptable_url ?full \<and> ?cleaned \<notin> set uniqueImageUrls")
    case False
    then show ?thesis using Cons by (auto simp: Let_def)
  next
    case True
    then have fresh: "?cleaned \<notin> set topImages" using Cons.prems(1) by blast
    have plain: "\<not> startsWith ?cleaned ''data:''"
      using True acceptable_cleaned_not_embedded by blast
    show ?thesis
    proof (cases "length (topImages @ [?cleaned]) \<ge> 5")
      case full: True
      have "top_images_loop origin uniqueImageUrls topImages (img # rest) = topImages @ [?cleaned]"
        using True full by (simp add: Let_def)
      then show ?thesis
        using Cons.prems fresh plain by auto
    next
      case room: False
      have step: "top_images_loop origin uniqueImageUrls topImages (img # rest) =
              top_images_loop origin (uniqueImageUrls @ [?cleaned]) (topImages @ [?cleaned]) rest"
        using True room by (simp add: Let_def)
      have "distinct (top_images_loop origin (uniqueImageUrls @ [?cleaned]) (topImages @ [?cleaned]) rest)
       \<and> length (top_images_loop origin (uniqueImageUrls @ [?cleaned]) (topImages @ [?cleaned]) rest) \<le> 5
       \<and> (\<forall>x \<in> set (top_images_loop origin (uniqueImageUrls @ [?cleaned]) (topImages @ [?cleaned]) rest).
             \<not> startsWith x ''data:'')"
      proof (rule Cons.IH)
        show "set (topImages @ [?cleaned]) \<subseteq> set (uniqueImageUrls @ [?cleaned])"
          using Cons.prems(1) by auto
        show "distinct (topImages @ [?cleaned])" using Cons.prems(2) fresh by simp
        show "length (topImages @ [?cleaned]) < 5" using room by simp
        show "\<forall>x \<in> set (topImages @ [?cleaned]). \<not> startsWith x ''data:''"
          using Cons.prems(4) plain by auto
      qed
      then show ?thesis using step by simp
    qed
  qed
qed

text \<open>The list the in-page loop builds has no URL twice, no \<^verbatim>\<open>data:\<close> URL and at most five
  entries. It stays in the page: the caller is handed the literal as initialised.\<close>

lemma select_images_sound:
  "distinct (select_images origin cands) \<and> length (select_images origin cands) \<le> 5
   \<and> (\<forall>x \<in> set (select_images origin cands). \<not> startsWith x ''data:'')"
  unfolding select_images_def
  by (rule top_images_loop_invariant) simp_all


lemma select_images_sample:
  "select_images ''https://www.myntra.com'' sample_candidates =
     [''https://cdn.example.com/zoom/1.jpg'', ''https://www.myntra.com/img/main.jpg'']"
  by code_simp




section \<open>What survives the cache file\<close>

lemma json_number_finite: "finite_number n \<Longrightarrow> json_number n = JNum n"
  by (cases n) auto

lemma all_json_iff: "all_json xs = (\<forall>x \<in> set xs. is_json x)"
  by (induction xs) auto

lemma entries_json_iff: "entries_json kvs = (\<forall>kv \<in> set kvs. is_json (snd kv))"
  by (induction kvs) auto

lemma json_roundtrip_identity:
  shows "is_json v \<Longrightarrow> json_roundtrip v = v"
    and "all_json xs \<Longrightarrow> json_elements xs = xs"
    and "entries_json kvs \<Longrightarrow> json_entries kvs = kvs"
  by (induction v and xs and kvs rule: json_roundtrip_json_elements_json_entries.induct)
     (auto simp: json_number_finite)

lemma is_json_loose: "is_json v \<Longrightarrow> loose v"
  by (simp add: loose_def)

lemma loose_undefined: "loose JUndef"
  by (simp add: loose_def)

lemma loose_truthy: "loose v \<Longrightarrow> truthy v \<Longrightarrow> is_json v"
  by (cases v) (auto simp: loose_def)

lemma js_or_json: "loose a \<Longrightarrow> is_json b \<Longrightarrow> is_json (js_or a b)"
  by (auto simp: js_or_def loose_truthy)

lemma nullish_json: "loose a \<Longrightarrow> is_json b \<Longrightarrow> is_json (nullish a b)"
  by (cases a) (auto simp: loose_def)

lemma array_or_empty_json: "loose a \<Longrightarrow> is_json (array_or_empty a)"
  by (cases a) (auto simp: array_or_empty_def loose_def)

lemma get_prop_in_entries:
  "get_prop kvs k = JUndef \<or> (k, get_prop kvs k) \<in> set kvs"
  by (auto simp: get_prop_def split: option.splits dest: map_of_SomeD)

lemma get_prop_json_entries: "entries_json kvs \<Longrightarrow> loose (get_prop kvs k)"
  using get_prop_in_entries [of kvs k]
  by (auto simp: entries_json_iff loose_def)

lemma opt_member_json: "is_json v \<Longrightarrow> loose (opt_member v k)"
  using get_prop_json_entries [of _ k] by (cases v) (auto simp: loose_def)

lemma opt_member_loose: "loose v \<Longrightarrow> loose (opt_member v k)"
  by (cases "v = JUndef") (auto simp: loose_def opt_member_json [unfolded loose_def])

lemma entries_json_list_all: "entries_json kvs = list_all (\<lambda>kv. is_json (snd kv)) kvs"
  by (simp add: entries_json_iff list_all_iff)

lemma set_prop_list_all:
  "list_all P kvs \<Longrightarrow> P (k, v) \<Longrightarrow> list_all P (set_prop kvs k v)"
  by (induction kvs) auto

lemma assign_all_list_all:
  "list_all P target \<Longrightarrow> list_all P kvs \<Longrightarrow>
     list_all P (foldl (\<lambda>acc (k, x). set_prop acc k x) target kvs)"
proof (induction kvs arbitrary: target)
  case Nil
  then show ?case by simp
next
  case (Cons a kvs)
  obtain k v where a: "a = (k, v)" by (cases a)
  have "list_all P (set_prop target k v)"
    using Cons.prems a by (intro set_prop_list_all) auto
  then show ?case using Cons a by simp
qed

lemma get_prop_list_all:
  "list_all P kvs \<Longrightarrow> get_prop kvs k = JUndef \<or> P (k, get_prop kvs k)"
  using get_prop_in_entries [of kvs k] by (auto simp: list_all_iff)

lemma is_json_shallow_loose: "is_json v \<Longrightarrow> shallow_loose v"
  by (cases v) (auto simp: entries_json_iff list_all_iff loose_def)

lemma is_json_field_ok: "is_json v \<Longrightarrow> field_ok (k, v)"
  by (simp add: field_ok_def is_json_shallow_loose is_json_loose)

lemma undefined_field_ok: "field_ok (k, JUndef)"
  by (simp add: field_ok_def loose_def)

lemma entries_json_record_ok: "entries_json kvs \<Longrightarrow> record_ok kvs"
  by (induction kvs) (auto simp: record_ok_def is_json_field_ok)

lemma record_ok_get: "record_ok pd \<Longrightarrow> field_ok (k, get_prop pd k)"
  using get_prop_list_all [of field_ok pd k] undefined_field_ok [of k]
  by (auto simp: record_ok_def)

lemma record_ok_loose:
  "record_ok pd \<Longrightarrow> k \<noteq> ''delivery'' \<Longrightarrow> loose (get_prop pd k)"
  using record_ok_get [of pd k] by (simp add: field_ok_def)

lemma record_ok_set_prop:
  "record_ok pd \<Longrightarrow> field_ok (k, v) \<Longrightarrow> record_ok (set_prop pd k v)"
  by (simp add: record_ok_def set_prop_list_all)

lemma index_entries_json: "all_json xs \<Longrightarrow> entries_json (index_entries i xs)"
  by (induction xs arbitrary: i) auto

lemma own_props_json: "is_json v \<Longrightarrow> entries_json (own_props v)"
proof (cases v)
  case (JStr s)
  have "all_json (map (\<lambda>c. JStr [c]) s)" by (simp add: all_json_iff)
  then show ?thesis using JStr by (simp add: index_entries_json)
qed (auto simp: index_entries_json)

lemma record_ok_spread_json:
  "record_ok target \<Longrightarrow> is_json v \<Longrightarrow> record_ok (spread_into target v)"
  unfolding record_ok_def spread_into_def
  using entries_json_record_ok [OF own_props_json, unfolded record_ok_def]
  by (intro assign_all_list_all)

lemma record_ok_spread_object:
  "record_ok target \<Longrightarrow> record_ok pd \<Longrightarrow> record_ok (spread_into target (JObj pd))"
  unfolding record_ok_def spread_into_def
  by (simp add: assign_all_list_all)

lemma entries_json_spread:
  "entries_json target \<Longrightarrow> is_json v \<Longrightarrow> entries_json (spread_into target v)"
  unfolding entries_json_list_all spread_into_def
  using own_props_json [unfolded entries_json_list_all]
  by (intro assign_all_list_all)

lemma record_ok_empty: "record_ok []"
  by (simp add: record_ok_def)

lemma iterate_json: "is_json v \<Longrightarrow> iterate v = Inr xs \<Longrightarrow> all_json xs"
  by (cases v) (auto simp: all_json_iff)

lemma first_occurrences_subset: "set (first_occurrences seen xs) \<subseteq> set xs"
  by (induction xs arbitrary: seen) auto

lemma dedupe_json: "all_json xs \<Longrightarrow> all_json (dedupe xs)"
  using first_occurrences_subset [of "[]" xs] by (auto simp: all_json_iff dedupe_def)

lemma combined_array_json:
  assumes "loose a" and "loose b"
      and "iterate (js_or a (JArr [])) = Inr xs" and "iterate (js_or b (JArr [])) = Inr ys"
  shows "is_json (JArr (dedupe (xs @ ys)))"
proof -
  have "all_json xs" using assms(1,3) by (intro iterate_json [of "js_or a (JArr [])"] js_or_json) auto
  moreover have "all_json ys"
    using assms(2,4) by (intro iterate_json [of "js_or b (JArr [])"] js_or_json) auto
  ultimately have "all_json (xs @ ys)" by (auto simp: all_json_iff)
  then show ?thesis by (simp add: dedupe_json)
qed

lemma combined_variants_json:
  assumes "loose a" and "loose b"
  shows "is_json (JObj (spread_into (spread_into [] (js_or a (JObj []))) (js_or b (JObj []))))"
proof -
  have "is_json (js_or a (JObj []))" "is_json (js_or b (JObj []))"
    using assms by (auto intro: js_or_json)
  then show ?thesis by (simp add: entries_json_spread)
qed

lemma data_object_json: "entries_json (data_object r)"
  by (cases "ix_title r"; cases "ix_price r"; cases "ix_originalPrice r"; cases "ix_description r";
      cases "ix_weight r"; cases "ix_category r")
     (simp_all add: data_object_def all_json_iff)

lemma fallbackExtraction_ok: "record_ok (fallbackExtraction r platform)"
proof -
  have "entries_json (data_object r @ [(''source'', JStr platform)])"
    using data_object_json [of r] by (simp add: entries_json_iff)
  then show ?thesis unfolding fallbackExtraction_def by (rule entries_json_record_ok)
qed

lemma with_source_ok: "is_json parsed \<Longrightarrow> record_ok (with_source parsed platform)"
  unfolding with_source_def
  by (intro record_ok_set_prop record_ok_spread_json record_ok_empty is_json_field_ok) simp_all

lemma extractDataWithAI_ok:
  assumes "json_vision env"
  shows "record_ok (snd (extractDataWithAI env platform))"
  using assms
  by (auto simp: extractDataWithAI_def json_vision_def with_source_ok fallbackExtraction_ok
      split: option.splits)

lemma merged_array_json:
  assumes "record_ok basicData" and "record_ok aiData" and "k \<noteq> ''delivery''"
      and "merged_array basicData aiData k = Inr v"
  shows "is_json v"
proof -
  from merged_array_Inr [OF assms(4)] obtain xs ys where
    "iterate (js_or (get_prop basicData k) (JArr [])) = Inr xs"
    "iterate (js_or (get_prop aiData k) (JArr [])) = Inr ys"
    "v = JArr (dedupe (xs @ ys))"
    by blast
  then show ?thesis
    using combined_array_json [of "get_prop basicData k" "get_prop aiData k" xs ys]
      record_ok_loose [OF assms(1,3)] record_ok_loose [OF assms(2,3)]
    by simp
qed

lemma merged_variants_json:
  assumes "record_ok basicData" and "record_ok aiData"
  shows "is_json (merged_variants basicData aiData)"
  unfolding merged_variants_def
  using assms by (intro combined_variants_json record_ok_loose) simp_all

lemma mergeData_ok:
  assumes "record_ok basicData" and "record_ok aiData"
      and "mergeData basicData aiData platform = Inr merged"
  shows "record_ok merged"
proof -
  from mergeData_Inr [OF assms(3)] obtain images features where
    i: "merged_array basicData aiData ''images'' = Inr images" and
    f: "merged_array basicData aiData ''features'' = Inr features" and
    m: "merged =
          set_prop
            (set_prop
              (set_prop
                (set_prop (spread_into (spread_into [] (JObj basicData)) (JObj aiData))
                   ''source'' (JStr platform))
                ''images'' images)
              ''features'' features)
            ''variants'' (merged_variants basicData aiData)"
    by blast
  have ji: "is_json images" using merged_array_json [OF assms(1,2) _ i] by simp
  have jf: "is_json features" using merged_array_json [OF assms(1,2) _ f] by simp
  show ?thesis
    unfolding m
    by (intro record_ok_set_prop record_ok_spread_object record_ok_empty assms(1,2)
        is_json_field_ok ji jf merged_variants_json) simp
qed

lemma extractDataWithIndexAndAI_ok:
  assumes "json_vision (vision_first env)" and "json_vision (vision_retry env)"
  shows "record_ok (snd (extractDataWithIndexAndAI env platform))"
proof -
  let ?basic = "data_object (extractBasicDataWithIndex (in_page env))"
  have b: "record_ok ?basic"
    using data_object_json by (rule entries_json_record_ok)
  obtain ev1 aiData where a: "extractDataWithAI (vision_first env) platform = (ev1, aiData)"
    by (cases "extractDataWithAI (vision_first env) platform")
  obtain ev2 aiData2 where a2: "extractDataWithAI (vision_retry env) platform = (ev2, aiData2)"
    by (cases "extractDataWithAI (vision_retry env) platform")
  have oa: "record_ok aiData" using extractDataWithAI_ok [OF assms(1), of platform] a by simp
  have oa2: "record_ok aiData2" using extractDataWithAI_ok [OF assms(2), of platform] a2 by simp
  show ?thesis
  proof (cases "mergeData ?basic aiData platform")
    case (Inl e)
    then show ?thesis using a a2 oa2 by (simp add: extractDataWithIndexAndAI_escalates)
  next
    case (Inr merged)
    then have "record_ok merged" using mergeData_ok [OF b oa] by blast
    then show ?thesis using a Inr by (simp add: extractDataWithIndexAndAI_escalates)
  qed
qed

lemma weight_step_ok: "record_ok pd \<Longrightarrow> record_ok (weight_step env pd)"
  by (cases "weight_specific env")
     (auto simp: weight_step_def Let_def intro!: record_ok_set_prop is_json_field_ok)

lemma delivery_object_shallow:
  "loose a \<Longrightarrow> loose d \<Longrightarrow> loose c \<Longrightarrow> shallow_loose (JObj (delivery_object a d c pin))"
  by (simp add: delivery_object_def loose_def)

lemma delivery_from_ai_shallow:
  assumes "json_delivery_reply (dlv_reply env)"
  shows "shallow_loose (JObj (snd (delivery_from_ai env pin)))"
proof (cases "dlv_screenshot_ok env")
  case False
  then show ?thesis
    by (simp add: delivery_from_ai_def generic_delivery_def delivery_object_shallow loose_def
        del: shallow_loose.simps)
next
  case True
  show ?thesis
  proof (cases "dlv_reply env")
    case (DeliveryJson a)
    show ?thesis
    proof (cases a)
      case None
      then show ?thesis using True DeliveryJson
        by (simp add: delivery_from_ai_def generic_delivery_def delivery_object_shallow loose_def
            del: shallow_loose.simps)
    next
      case (Some v)
      then have j: "is_json v" using assms DeliveryJson by simp
      then have nn: "v \<noteq> JUndef" by auto
      show ?thesis
      proof (cases "v = JNull")
        case True
        then show ?thesis using \<open>dlv_screenshot_ok env\<close> DeliveryJson Some
          by (simp add: delivery_from_ai_def generic_delivery_def delivery_object_shallow loose_def
              del: shallow_loose.simps)
      next
        case False
        then have "member v ''available'' = Inr (opt_member v ''available'')"
          using nn by (cases v) auto
        then show ?thesis using \<open>dlv_screenshot_ok env\<close> DeliveryJson Some j
          by (simp add: delivery_from_ai_def delivery_object_shallow opt_member_json
              del: shallow_loose.simps)
      qed
    qed
  qed (simp_all add: True delivery_from_ai_def generic_delivery_def delivery_object_shallow loose_def
        del: shallow_loose.simps)
qed

lemma checkDeliveryWithAI_shallow:
  assumes "json_delivery env" and "checkDeliveryWithAI env pin = (ev, Inr r)"
  shows "shallow_loose (JObj r)"
proof -
  have d: "shallow_loose (JObj (checkDeliveryDate env pin))"
    using assms(1)
    by (simp add: checkDeliveryDate_def json_delivery_def delivery_object_shallow
        del: shallow_loose.simps)
  have g: "shallow_loose (JObj (caught_delivery pin))"
    by (simp add: caught_delivery_def delivery_object_shallow loose_def del: shallow_loose.simps)
  have a: "shallow_loose (JObj (snd (delivery_from_ai env pin)))"
    using assms(1) by (intro delivery_from_ai_shallow) (simp add: json_delivery_def)
  have t: "shallow_loose (JObj (delivery_object (dt_available t) (dt_estimatedDate t)
                                   (dt_charges t) pin))"
    if "page_text env = Some t" for t
    using assms(1) that by (simp add: json_delivery_def delivery_object_shallow del: shallow_loose.simps)
  show ?thesis
    using assms(2) d g a t
    by (auto simp: checkDeliveryWithAI_def checkDelivery_body_def Let_def
        simp del: shallow_loose.simps
        split: if_splits option.splits prod.splits sum.splits)
qed

lemma delivery_step_ok:
  assumes "json_delivery (delivery env)" and "record_ok pd"
      and "delivery_step opts env pd = (ev, Inr pd')"
  shows "record_ok pd'"
proof (cases "opt_checkDelivery opts")
  case False
  then show ?thesis using assms by (simp add: delivery_step_def)
next
  case True
  obtain ev' r where c: "checkDeliveryWithAI (delivery env) (opt_pincode opts) = (ev', Inr r)"
    using checkDeliveryWithAI_returns by blast
  have "shallow_loose (JObj r)" using checkDeliveryWithAI_shallow [OF assms(1) c] .
  then have "field_ok (''delivery'', JObj r)" by (simp add: field_ok_def)
  then have "record_ok (set_prop pd ''delivery'' (JObj r))"
    using assms(2) by (intro record_ok_set_prop)
  then show ?thesis using assms(3) True c by (simp add: delivery_step_def)
qed

lemma member_json: "is_json v \<Longrightarrow> member v k = Inr x \<Longrightarrow> loose x"
  using opt_member_json [of v k] by (cases v) auto

lemma fill_images_json:
  assumes "record_ok pd" and "is_json md" and "fill_images pd md = Inr images"
  shows "is_json images"
proof -
  from assms(3) obtain xs mi ys where
    x: "iterate (js_or (get_prop pd ''images'') (JArr [])) = Inr xs" and
    m: "member md ''images'' = Inr mi" and
    y: "iterate (js_or mi (JArr [])) = Inr ys" and
    i: "images = JArr (dedupe (xs @ ys))"
    by (auto simp: fill_images_def try_bind_def split: sum.splits)
  have "loose (get_prop pd ''images'')" using assms(1) by (intro record_ok_loose) simp_all
  moreover have "loose mi" using member_json [OF assms(2) m] .
  ultimately show ?thesis using combined_array_json x y i by blast
qed

lemma fill_merge_first_ok:
  assumes "record_ok pd" and "is_json md" and "fill_merge_first pd md = Inr r"
  shows "record_ok r"
proof -
  from assms(3) obtain images mv where
    i: "fill_images pd md = Inr images" and
    v: "member md ''variants'' = Inr mv" and
    r: "r = set_prop
              (set_prop (spread_into (spread_into [] (JObj pd)) md) ''images'' images)
              ''variants''
              (JObj (spread_into (spread_into [] (js_or (get_prop pd ''variants'') (JObj [])))
                                 (js_or mv (JObj []))))"
    by (auto simp: fill_merge_first_def try_bind_def split: sum.splits)
  have ji: "is_json images" using fill_images_json [OF assms(1,2) i] .
  have "loose (get_prop pd ''variants'')" using assms(1) by (intro record_ok_loose) simp_all
  moreover have "loose mv" using member_json [OF assms(2) v] .
  ultimately have jv: "is_json (JObj (spread_into (spread_into [] (js_or (get_prop pd ''variants'') (JObj [])))
                                 (js_or mv (JObj []))))"
    by (rule combined_variants_json)
  show ?thesis
    unfolding r
    by (intro record_ok_set_prop record_ok_spread_json record_ok_spread_object record_ok_empty
        assms(1,2) is_json_field_ok ji jv)
qed

lemma fill_merge_second_ok:
  assumes "record_ok pd" and "is_json cd" and "fill_merge_second pd cd = Inr r"
  shows "record_ok r"
proof -
  from assms(3) obtain images where
    i: "fill_images pd cd = Inr images" and
    r: "r = set_prop (spread_into (spread_into [] (JObj pd)) cd) ''images'' images"
    by (auto simp: fill_merge_second_def try_bind_def split: sum.splits)
  have ji: "is_json images" using fill_images_json [OF assms(1,2) i] .
  show ?thesis
    unfolding r
    by (intro record_ok_set_prop record_ok_spread_json record_ok_spread_object record_ok_empty
        assms(1,2) is_json_field_ok ji)
qed

lemma fill_merge_text_ok:
  "record_ok pd \<Longrightarrow> is_json td \<Longrightarrow> record_ok (fill_merge_text pd td)"
  unfolding fill_merge_text_def
  by (intro record_ok_spread_json record_ok_spread_object record_ok_empty)

lemma generic_weight_ok: "record_ok pd \<Longrightarrow> record_ok (generic_weight missing pd)"
  by (auto simp: generic_weight_def Let_def split: jsval.splits
      intro!: record_ok_set_prop is_json_field_ok)

lemma flipkart_step_ok:
  "record_ok pd \<Longrightarrow> record_ok (fst (flipkart_step env pd missing))"
  by (auto simp: flipkart_step_def all_json_iff intro!: record_ok_set_prop is_json_field_ok)

lemma parsed_or_throw_json:
  "json_answer a \<Longrightarrow> parsed_or_throw a = Inr v \<Longrightarrow> is_json v"
  by (cases a) (auto simp: parsed_or_throw_def)

lemma fill_from_ai_ok:
  assumes "json_fill env" and "record_ok pd"
  shows "record_ok (snd (fill_from_ai env missing pd))"
proof (cases "fill_reply env")
  case FillServiceError
  then show ?thesis
    using assms
    by (cases "fill_text_answer env")
       (auto simp: fill_from_ai_def json_fill_def generic_weight_ok fill_merge_text_ok)
next
  case FillNoJson
  then show ?thesis using assms by (simp add: fill_from_ai_def generic_weight_ok)
next
  case (FillJson first second)
  have j1: "json_answer first" and j2: "json_answer second"
    using assms(1) FillJson by (simp_all add: json_fill_def)
  have r1: "record_ok r"
    if "try_bind (parsed_or_throw first) (fill_merge_first pd) = Inr r" for r
  proof -
    from that obtain v where "parsed_or_throw first = Inr v" "fill_merge_first pd v = Inr r"
      by (auto simp: try_bind_def split: sum.splits)
    then show ?thesis using fill_merge_first_ok [OF assms(2)] parsed_or_throw_json [OF j1] by blast
  qed
  have r2: "record_ok r"
    if "try_bind (parsed_or_throw second) (fill_merge_second pd) = Inr r" for r
  proof -
    from that obtain v where "parsed_or_throw second = Inr v" "fill_merge_second pd v = Inr r"
      by (auto simp: try_bind_def split: sum.splits)
    then show ?thesis using fill_merge_second_ok [OF assms(2)] parsed_or_throw_json [OF j2] by blast
  qed
  show ?thesis
    using FillJson r1 r2 generic_weight_ok [OF assms(2)]
    by (auto simp: fill_from_ai_def split: sum.splits)
qed

lemma fillMissingDataWithAI_ok:
  assumes "json_fill env" and "record_ok pd"
  shows "record_ok (snd (fillMissingDataWithAI env pd))"
proof -
  obtain pd1 m1 where f: "flipkart_step env pd (missing_fields pd) = (pd1, m1)"
    by (cases "flipkart_step env pd (missing_fields pd)")
  have o1: "record_ok pd1" using flipkart_step_ok [OF assms(2), of env "missing_fields pd"] f by simp
  have "record_ok (snd (fill_from_ai env m1 pd1))" using fill_from_ai_ok [OF assms(1) o1] .
  then show ?thesis
    using assms(2) o1 f
    by (auto simp: fillMissingDataWithAI_def Let_def split: prod.splits)
qed

lemma fill_step_ok:
  "json_fill (fill env) \<Longrightarrow> record_ok pd \<Longrightarrow> record_ok (snd (fill_step env pd))"
  by (simp add: fill_step_def fillMissingDataWithAI_ok)

lemma shallow_loose_member: "shallow_loose v \<Longrightarrow> loose (opt_member v k)"
proof (cases v)
  case (JObj kvs)
  assume "shallow_loose v"
  then have "list_all (\<lambda>kv. loose (snd kv)) kvs" using JObj by simp
  from get_prop_list_all [OF this, of k] show ?thesis using JObj by (auto simp: loose_def)
qed (auto simp: loose_def)

lemma handleMissingData_json:
  assumes "record_ok pd"
  shows "entries_json (handleMissingData now_iso pd)"
proof -
  have l: "loose (get_prop pd k)" if "k \<noteq> ''delivery''" for k
    using assms that by (rule record_ok_loose)
  have d: "loose (opt_member (get_prop pd ''delivery'') k)" for k
    using record_ok_get [OF assms, of "''delivery''"]
    by (intro shallow_loose_member) (simp add: field_ok_def)
  have v: "loose (opt_member (get_prop pd ''variants'') k)" for k
    by (intro opt_member_loose l) simp
  show ?thesis
    unfolding handleMissingData_def
    by (simp add: js_or_json nullish_json array_or_empty_json l d v)
qed

lemma finalise_json:
  assumes "record_ok pd"
  shows "is_json (JObj (finalise env platform u pd))"
proof -
  have "list_all (\<lambda>kv. is_json (snd kv)) (finalise env platform u pd)"
    unfolding finalise_def
    using handleMissingData_json [OF assms, unfolded entries_json_list_all]
    by (intro set_prop_list_all) simp_all
  then show ?thesis by (simp add: entries_json_list_all)
qed

lemma session_returns_json:
  assumes "json_answers env" and "session md5 opts env cache u = (Inr r, c, ev)"
  shows "is_json r \<and> truthy r \<and> ev \<noteq> []
         \<and> c = cacheProduct md5 (now_write env) (write_ok env) cache u r"
proof -
  from assms(2) have p: "page_ok env" by (auto simp: session_def split: if_splits)
  from assms(2) p obtain platform where pl: "detectPlatform u = Inr platform"
    by (cases "detectPlatform u") (auto simp: session_def)
  from assms(2) p pl have g: "goto_ok env" by (auto simp: session_def split: if_splits)
  obtain ev1 pd1 where x: "extractDataWithIndexAndAI (extraction env) platform = (ev1, pd1)"
    by (cases "extractDataWithIndexAndAI (extraction env) platform")
  obtain ev2 pd3 where y: "delivery_step opts env (weight_step env pd1) = (ev2, Inr pd3)"
    using delivery_step_returns by blast
  obtain ev3 pd4 where z: "fill_step env pd3 = (ev3, pd4)"
    by (cases "fill_step env pd3")
  have o1: "record_ok pd1"
    using extractDataWithIndexAndAI_ok [of "extraction env" platform] assms(1) x
    by (simp add: json_answers_def)
  have o3: "record_ok pd3"
    using delivery_step_ok [OF _ weight_step_ok [OF o1] y] assms(1) by (simp add: json_answers_def)
  have o4: "record_ok pd4"
    using fill_step_ok [OF _ o3, of env] assms(1) z by (simp add: json_answers_def)
  have v: "validateScrapedData (finalise env platform u pd4) = Inr ()"
    by (simp add: validateScrapedData_def finalise_title_truthy)
  have "session md5 opts env cache u =
          (Inr (JObj (finalise env platform u pd4)),
           cacheProduct md5 (now_write env) (write_ok env) cache u (JObj (finalise env platform u pd4)),
           [NewPage, Navigate u] @ ev1 @ ev2 @ ev3 @ [WriteCache u])"
    using p pl g by (simp add: session_def x y z v Let_def)
  then show ?thesis using assms(2) finalise_json [OF o4] by auto
qed

lemma cache_hit_result:
  assumes "\<not> opt_bypassCache opts"
      and "truthy (getCachedProduct md5 (now_lookup env) cache u)"
  shows "scrapeProduct md5 opts env cache u =
           (Inr (getCachedProduct md5 (now_lookup env) cache u), cache, [])"
  using assms by (simp add: scrapeProduct_def)

text \<open>A call served from the cache leaves the entry as it is, so a second lookup that
  still finds the entry younger than 24 hours is served the same record.\<close>

lemma repeated_hit_served_again:
  assumes "\<not> opt_bypassCache opts1" and "\<not> opt_bypassCache opts2"
      and "scrapeProduct md5 opts1 env1 cache0 u = (Inr r1, cache1, [])"
      and "cache0 (cache_path md5 u) = Some f" and "now_lookup env2 - cf_timestamp f < 86400000"
  shows "scrapeProduct md5 opts2 env2 cache1 u = (Inr r1, cache1, [])"
proof -
  have hit: "truthy (getCachedProduct md5 (now_lookup env1) cache0 u)"
  proof (rule ccontr)
    assume "\<not> truthy (getCachedProduct md5 (now_lookup env1) cache0 u)"
    then show False
      using assms(3) by (auto simp: scrapeProduct_def Let_def split: if_splits prod.splits)
  qed
  from cache_hit_result [OF assms(1) hit] assms(3)
  have r: "r1 = getCachedProduct md5 (now_lookup env1) cache0 u" and c: "cache1 = cache0"
    by simp_all
  have "r1 = cf_data f"
    using hit r assms(4) by (auto simp: getCachedProduct_def Let_def split: if_splits)
  then have "getCachedProduct md5 (now_lookup env2) cache1 u = r1"
    using assms(4,5) c by (simp add: getCachedProduct_def cache_ttl_def)
  moreover have "truthy r1" using hit r by simp
  ultimately show ?thesis using cache_hit_result [OF assms(2), of md5 env2 cache1 u] by simp
qed

text \<open>
  C6 (as amended). When the first of two calls for the same URL extracts a record, its
  cache write succeeds, every answer of the AI service and every delivery reading of
  that call holds only values that survive the cache file (no number beyond the double
  range, no negative zero), and the second call, with \<^verbatim>\<open>bypassCache\<close> unset, looks the cache
  up less than 24 hours after that write, the second call returns the record of the
  first, from the cache entry the first wrote and without any renderer activity.
\<close>

theorem repeated_call_served_from_cache:
  assumes "\<not> opt_bypassCache opts2"
      and "scrapeProduct md5 opts1 env1 cache0 u = (Inr r1, cache1, tr1)" and "tr1 \<noteq> []"
      and "write_ok env1" and "json_answers env1"
      and "now_lookup env2 - now_write env1 < 86400000"
  shows "scrapeProduct md5 opts2 env2 cache1 u = (Inr r1, cache1, [])"
proof -
  from extraction_result [OF assms(2,3)] obtain ev where
    s: "session md5 opts1 env1 cache0 u = (Inr r1, cache1, ev)"
    by blast
  from session_returns_json [OF assms(5) s]
  have j: "is_json r1" and tr: "truthy r1"
    and c: "cache1 = cacheProduct md5 (now_write env1) (write_ok env1) cache0 u r1"
    by simp_all
  have "getCachedProduct md5 (now_lookup env2) cache1 u = r1"
    using assms(4,6)
    by (simp add: c cacheProduct_def getCachedProduct_def cache_ttl_def json_roundtrip_identity(1) [OF j])
  then show ?thesis using cache_hit_result [OF assms(1), of md5 env2 cache1 u] tr by simp
qed

theorem repeated_call_served_from_cache_witness:
  "fst (scrapeProduct plain_digest default_options shirt_page Map.empty
          ''https://www.myntra.com/shirts/123'') = Inr shirt_record
   \<and> fst (scrapeProduct plain_digest default_options shirt_page_later
            (fst (snd (scrapeProduct plain_digest default_options shirt_page Map.empty
                         ''https://www.myntra.com/shirts/123'')))
            ''https://www.myntra.com/shirts/123'') = Inr shirt_record
   \<and> snd (snd (scrapeProduct plain_digest default_options shirt_page_later
            (fst (snd (scrapeProduct plain_digest default_options shirt_page Map.empty
                         ''https://www.myntra.com/shirts/123'')))
            ''https://www.myntra.com/shirts/123'')) = []"
proof -
  let ?u = "''https://www.myntra.com/shirts/123''"
  let ?first = "scrapeProduct plain_digest default_options shirt_page Map.empty ?u"
  have a: "\<not> opt_bypassCache default_options" by (simp add: default_options_def)
  have j: "json_answers shirt_page" by code_simp
  have r: "fst ?first = Inr shirt_record" by code_simp
  have t: "snd (snd ?first) \<noteq> []" by code_simp
  have e: "?first = (Inr shirt_record, fst (snd ?first), snd (snd ?first))"
    using r by (metis prod.collapse)
  have w: "write_ok shirt_page" by code_simp
  have n: "now_lookup shirt_page_later - now_write shirt_page < 86400000" by code_simp
  show ?thesis
    using repeated_call_served_from_cache [OF a e t w j n] r by simp
qed

text \<open>
  C6 as stated fails: the first call extracts the record of the shirt page, but the cache
  file cannot be written, which \<^verbatim>\<open>cacheProduct\<close> logs and swallows; the second call, an
  hour later, finds no entry, runs the extraction again and returns a record with
  another \<^verbatim>\<open>scrapedAt\<close>.
\<close>

theorem repeated_call_after_failed_write_counterexample:
  "fst (scrapeProduct plain_digest default_options (shirt_page\<lparr>write_ok := False\<rparr>) Map.empty
          ''https://www.myntra.com/shirts/123'') = Inr shirt_record
   \<and> fst (scrapeProduct plain_digest default_options shirt_page_later
            (fst (snd (scrapeProduct plain_digest default_options
                         (shirt_page\<lparr>write_ok := False\<rparr>) Map.empty
                         ''https://www.myntra.com/shirts/123'')))
            ''https://www.myntra.com/shirts/123'') = Inr shirt_record_later
   \<and> shirt_record_later \<noteq> shirt_record
   \<and> snd (snd (scrapeProduct plain_digest default_options shirt_page_later
            (fst (snd (scrapeProduct plain_digest default_options
                         (shirt_page\<lparr>write_ok := False\<rparr>) Map.empty
                         ''https://www.myntra.com/shirts/123'')))
            ''https://www.myntra.com/shirts/123'')) =
       [LaunchBrowser, NewPage, Navigate ''https://www.myntra.com/shirts/123'',
        ExtractDataWithAI, GenerateContent Vision, GenerateContent Delivery,
        WriteCache ''https://www.myntra.com/shirts/123'', CloseBrowser]
   \<and> \<not> opt_bypassCache default_options
   \<and> now_lookup shirt_page_later - now_lookup (shirt_page\<lparr>write_ok := False\<rparr>) = 3600000"
  by code_simp

text \<open>A number beyond the double range does not survive the cache file either: the AI
  answer gives the price as \<^verbatim>\<open>1e999\<close>, the first call returns the infinity \<^verbatim>\<open>JSON.parse\<close>
  made of it, and the second call, served from the cache an hour later, returns
  \<^verbatim>\<open>null\<close> in its place.\<close>

lemma infinite_price_read_back_as_null:
  "map_sum id (\<lambda>r. opt_member r ''price'')
     (fst (scrapeProduct plain_digest default_options huge_price_page Map.empty
             ''https://www.myntra.com/shirts/123'')) = Inr (JNum PosInfinity)"
  "map_sum id (\<lambda>r. opt_member r ''price'')
     (fst (scrapeProduct plain_digest default_options (huge_price_page\<lparr>now_lookup := 1700003600000\<rparr>)
             (fst (snd (scrapeProduct plain_digest default_options huge_price_page Map.empty
                          ''https://www.myntra.com/shirts/123'')))
             ''https://www.myntra.com/shirts/123'')) = Inr JNull"
  "snd (snd (scrapeProduct plain_digest default_options (huge_price_page\<lparr>now_lookup := 1700003600000\<rparr>)
             (fst (snd (scrapeProduct plain_digest default_options huge_price_page Map.empty
                          ''https://www.myntra.com/shirts/123'')))
             ''https://www.myntra.com/shirts/123'')) = []"
  "\<not> json_answers huge_price_page"
  by code_simp+

section \<open>Every returned record is complete\<close>

lemma set_prop_present_keys:
  "k \<in> fst ` set kvs \<Longrightarrow> map fst (set_prop kvs k v) = map fst kvs"
  by (induction kvs) force+

lemma handleMissingData_keys: "map fst (handleMissingData now_iso pd) = product_fields"
  by (simp add: handleMissingData_def product_fields_def)

lemma finalise_keys: "map fst (finalise env platform u pd) = product_fields"
proof -
  have k: "fst ` set (handleMissingData (iso_normalise env) pd) = set product_fields"
    using handleMissingData_keys [of "iso_normalise env" pd] by (metis set_map)
  have s1: "map fst (set_prop (handleMissingData (iso_normalise env) pd) ''source'' (JStr platform))
              = product_fields"
    using k by (simp add: set_prop_present_keys handleMissingData_keys product_fields_def)
  have s2: "map fst (set_prop
                       (set_prop (handleMissingData (iso_normalise env) pd) ''source'' (JStr platform))
                       ''scrapedAt'' (JStr (iso_scraped env))) = product_fields"
    using s1 by (subst set_prop_present_keys) (simp_all add: keys_set_prop k product_fields_def)
  show ?thesis
    unfolding finalise_def using s2
    by (subst set_prop_present_keys) (simp_all add: keys_set_prop k product_fields_def)
qed

lemma handleMissingData_defined:
  "k \<in> set product_fields \<Longrightarrow> get_prop (handleMissingData now_iso pd) k \<noteq> JUndef"
  by (auto simp: handleMissingData_def product_fields_def get_prop_def js_or_defined
      array_or_empty_isArray isArray_defined)

lemma finalise_defined:
  "k \<in> set product_fields \<Longrightarrow> get_prop (finalise env platform u pd) k \<noteq> JUndef"
  by (simp add: finalise_def get_prop_set_prop handleMissingData_defined)

lemma session_returns_finalised:
  assumes "session md5 opts env cache u = (Inr r, c, ev)"
  shows "\<exists>platform pd. r = JObj (finalise env platform u pd)"
proof -
  from assms have p: "page_ok env" by (auto simp: session_def split: if_splits)
  from assms p obtain platform where pl: "detectPlatform u = Inr platform"
    by (cases "detectPlatform u") (auto simp: session_def)
  from assms p pl have g: "goto_ok env" by (auto simp: session_def split: if_splits)
  obtain ev1 pd1 where x: "extractDataWithIndexAndAI (extraction env) platform = (ev1, pd1)"
    by (cases "extractDataWithIndexAndAI (extraction env) platform")
  obtain ev2 pd3 where y: "delivery_step opts env (weight_step env pd1) = (ev2, Inr pd3)"
    using delivery_step_returns by blast
  obtain ev3 pd4 where z: "fill_step env pd3 = (ev3, pd4)"
    by (cases "fill_step env pd3")
  have v: "validateScrapedData (finalise env platform u pd4) = Inr ()"
    by (simp add: validateScrapedData_def finalise_title_truthy)
  have "session md5 opts env cache u =
          (Inr (JObj (finalise env platform u pd4)),
           cacheProduct md5 (now_write env) (write_ok env) cache u (JObj (finalise env platform u pd4)),
           [NewPage, Navigate u] @ ev1 @ ev2 @ ev3 @ [WriteCache u])"
    using p pl g by (simp add: session_def x y z v Let_def)
  then show ?thesis using assms by auto
qed

text \<open>
  C3. Whatever object \<^verbatim>\<open>handleMissingData\<close> is given, the record it returns has exactly
  the thirteen fields of the product record, in the literal's order, none of them
  \<^verbatim>\<open>undefined\<close>; \<^verbatim>\<open>variants\<close> is an object with the arrays \<^verbatim>\<open>sizes\<close>, \<^verbatim>\<open>colors\<close> and
  \<^verbatim>\<open>other\<close>; \<^verbatim>\<open>delivery\<close> is an object with \<^verbatim>\<open>available\<close>, \<^verbatim>\<open>estimatedDate\<close>,
  \<^verbatim>\<open>charges\<close> and \<^verbatim>\<open>pincode\<close>, none of them \<^verbatim>\<open>undefined\<close>. And every record that
  \<^verbatim>\<open>scrapeProduct\<close> returns from an extraction (the renderer was used) is an object with
  exactly those thirteen fields, none of them \<^verbatim>\<open>undefined\<close>.
\<close>

theorem handleMissingData_fields_defined:
  "map fst (handleMissingData now_iso productData) = product_fields
   \<and> (\<forall>k \<in> set product_fields. get_prop (handleMissingData now_iso productData) k \<noteq> JUndef)
   \<and> (\<exists>vs. get_prop (handleMissingData now_iso productData) ''variants'' = JObj vs
          \<and> map fst vs = [''sizes'', ''colors'', ''other'']
          \<and> (\<forall>k \<in> set [''sizes'', ''colors'', ''other'']. isArray (get_prop vs k)))
   \<and> (\<exists>d. get_prop (handleMissingData now_iso productData) ''delivery'' = JObj d
          \<and> map fst d = [''available'', ''estimatedDate'', ''charges'', ''pincode'']
          \<and> (\<forall>k \<in> set [''available'', ''estimatedDate'', ''charges'', ''pincode''].
                get_prop d k \<noteq> JUndef))
   \<and> (scrapeProduct md5 opts env cache u = (Inr r, c, tr) \<and> tr \<noteq> [] \<longrightarrow>
        (\<exists>fields. r = JObj fields \<and> map fst fields = product_fields
              \<and> (\<forall>k \<in> set product_fields. get_prop fields k \<noteq> JUndef)))"
proof (intro conjI impI)
  show "map fst (handleMissingData now_iso productData) = product_fields"
    by (rule handleMissingData_keys)
  show "\<forall>k \<in> set product_fields. get_prop (handleMissingData now_iso productData) k \<noteq> JUndef"
    using handleMissingData_defined by blast
  show "\<exists>vs. get_prop (handleMissingData now_iso productData) ''variants'' = JObj vs
          \<and> map fst vs = [''sizes'', ''colors'', ''other'']
          \<and> (\<forall>k \<in> set [''sizes'', ''colors'', ''other'']. isArray (get_prop vs k))"
    by (simp add: handleMissingData_def get_prop_def array_or_empty_isArray)
  show "\<exists>d. get_prop (handleMissingData now_iso productData) ''delivery'' = JObj d
          \<and> map fst d = [''available'', ''estimatedDate'', ''charges'', ''pincode'']
          \<and> (\<forall>k \<in> set [''available'', ''estimatedDate'', ''charges'', ''pincode''].
                get_prop d k \<noteq> JUndef)"
    by (simp add: handleMissingData_def get_prop_def js_or_defined nullish_defined)
next
  assume h: "scrapeProduct md5 opts env cache u = (Inr r, c, tr) \<and> tr \<noteq> []"
  then have miss: "\<not> (\<not> opt_bypassCache opts \<and> truthy (getCachedProduct md5 (now_lookup env) cache u))"
    by (auto simp: scrapeProduct_def Let_def)
  obtain res c' ev where s: "session md5 opts env cache u = (res, c', ev)"
    by (cases "session md5 opts env cache u")
  from h miss s have "rethrow res = Inr r"
    by (auto simp: scrapeProduct_def Let_def split: if_splits)
  then have "res = Inr r" by (cases res rule: rethrow.cases) auto
  from session_returns_finalised [OF s [unfolded this]]
  obtain platform pd where "r = JObj (finalise env platform u pd)" by blast
  then show "\<exists>fields. r = JObj fields \<and> map fst fields = product_fields
              \<and> (\<forall>k \<in> set product_fields. get_prop fields k \<noteq> JUndef)"
    using finalise_keys [of env platform u pd] finalise_defined [of _ env platform u pd]
    by (intro exI [of _ "finalise env platform u pd"]) simp
qed

theorem handleMissingData_fields_defined_witness:
  "get_prop (handleMissingData ''2025-01-01T00:00:00.000Z'' [(''price'', JStr ''499'')]) ''title''
     = JStr ''Unknown Product''
   \<and> get_prop (handleMissingData ''2025-01-01T00:00:00.000Z'' [(''price'', JStr ''499'')]) ''weight''
     \<noteq> JUndef
   \<and> fst (scrapeProduct plain_digest default_options blank_page Map.empty
            ''https://www.myntra.com/shirts/123'') = Inr unknown_record
   \<and> unknown_record \<noteq> JUndef"
proof -
  let ?u = "''https://www.myntra.com/shirts/123''"
  let ?call = "scrapeProduct plain_digest default_options blank_page Map.empty ?u"
  have r: "fst ?call = Inr unknown_record" by code_simp
  have t: "snd (snd ?call) \<noteq> []" by code_simp
  have e: "?call = (Inr unknown_record, fst (snd ?call), snd (snd ?call))"
    using r by (metis prod.collapse)
  have w: "''weight'' \<in> set product_fields" by (simp add: product_fields_def)
  have g: "get_prop (handleMissingData ''2025-01-01T00:00:00.000Z'' [(''price'', JStr ''499'')]) ''title''
     = JStr ''Unknown Product''"
    by (simp add: handleMissingData_def get_prop_def js_or_def)
  note T = handleMissingData_fields_defined
            [of "''2025-01-01T00:00:00.000Z''" "[(''price'', JStr ''499'')]" plain_digest
               default_options blank_page Map.empty ?u unknown_record "fst (snd ?call)"
               "snd (snd ?call)"]
  have q: "get_prop (handleMissingData ''2025-01-01T00:00:00.000Z'' [(''price'', JStr ''499'')]) ''weight''
             \<noteq> JUndef"
    using T [THEN conjunct2, THEN conjunct1, rule_format, OF w] .
  have "\<exists>fields. unknown_record = JObj fields \<and> map fst fields = product_fields
              \<and> (\<forall>k \<in> set product_fields. get_prop fields k \<noteq> JUndef)"
    using T [THEN conjunct2, THEN conjunct2, THEN conjunct2, THEN conjunct2, rule_format,
             OF conjI [OF e t]] .
  then obtain fields where f: "unknown_record = JObj fields" by blast
  have n: "unknown_record \<noteq> JUndef" unfolding f by simp
  show ?thesis
    by (rule conjI [OF g conjI [OF q conjI [OF r n]]])
qed

end
